theory Spec2Isabelle
  imports Main "HOL-Library.Word" "HOL-Library.Sublist"
begin

section \<open>Go values used by the conformance suite\<close>

text \<open>
  The file \<^verbatim>\<open>go/vt/tabletserver/tabletconntest/tabletconntest.go\<close> holds a fake
  query service (\<^verbatim>\<open>FakeQueryService\<close>) and the client-side tests that are run
  against it through a \<^verbatim>\<open>tabletconn.TabletConn\<close>. The service methods are
  embedded as state-passing functions: the service value carries its three flags and
  the failures recorded through its \<^verbatim>\<open>*testing.T\<close>.

  A Go \<^verbatim>\<open>int64\<close> and a \<^verbatim>\<open>uint64\<close> are 64-bit words; \<open>sint\<close> reads the
  signed value of the former. The values are only stored and compared for equality.
  A non-nil \<^verbatim>\<open>error\<close> is identified with the text of its \<^verbatim>\<open>Error()\<close>; the nil
  error is \<open>None\<close>.
\<close>

type_synonym int64 = "64 word"
type_synonym uint64 = "64 word"
type_synonym error = string

text \<open>
  A Go function either returns or panics. The panic value is kept as the text that
  \<^verbatim>\<open>%v\<close> prints for it (for a value made by \<^verbatim>\<open>fmt.Errorf(s)\<close> that is \<open>s\<close>).
\<close>

datatype 'a outcome = Return 'a | Panic string

text \<open>
  A Go slice is either nil or a (possibly empty) sequence; \<^verbatim>\<open>len\<close> of both the nil
  and the empty slice is 0, while \<^verbatim>\<open>reflect.DeepEqual\<close> tells them apart.
\<close>

fun slice_len :: "'a list option \<Rightarrow> nat" where
  "slice_len None = 0"
| "slice_len (Some xs) = length xs"

text \<open>\<^verbatim>\<open>strings.Contains(s, substr)\<close>.\<close>

fun strings_Contains :: "string \<Rightarrow> string \<Rightarrow> bool" where
  "strings_Contains [] substr = (substr = [])"
| "strings_Contains (c # s) substr = (prefix substr (c # s) \<or> strings_Contains s substr)"

section \<open>Protocol data\<close>

text \<open>
  The struct declarations live in the packages \<^verbatim>\<open>proto\<close>, \<^verbatim>\<open>mproto\<close> and
  \<^verbatim>\<open>sqltypes\<close>; the fields below are the ones the composite literals and the field
  accesses of the test file name. A bind-variable map is an association list with
  distinct keys (\<open>None\<close> is the nil map); its values are \<^verbatim>\<open>interface{}\<close>. The
  split count is a Go \<^verbatim>\<open>int\<close>, taken as 64 bits wide.
\<close>

datatype Value = MakeString string

datatype interface = Int64 int64 | Bytes string

type_synonym bindvars = "(string \<times> interface) list option"

record Field =
  Name :: string
  Type :: int64

record QueryResult =
  Fields :: "Field list option"
  RowsAffected :: uint64
  InsertId :: uint64
  Rows :: "Value list list option"

record Session =
  SessionId :: int64
  TransactionId :: int64

record TransactionInfo =
  TransactionId :: int64

record Query =
  Sql :: string
  BindVariables :: bindvars
  SessionId :: int64
  TransactionId :: int64

record BoundQuery =
  Sql :: string
  BindVariables :: bindvars

record QueryList =
  Queries :: "BoundQuery list"
  SessionId :: int64
  TransactionId :: int64

record QueryResultList =
  List :: "QueryResult list"

record SplitQueryRequest =
  Query :: BoundQuery
  SplitCount :: int64

record QuerySplit =
  Query :: BoundQuery
  RowCount :: int64

record SplitQueryResult =
  Queries :: "QuerySplit list"

text \<open>
  \<^verbatim>\<open>reflect.DeepEqual\<close> on two maps: both nil or both non-nil, the same length, and
  every key of the first bound to an equal value in the second.
\<close>

fun map_DeepEqual :: "bindvars \<Rightarrow> bindvars \<Rightarrow> bool" where
  "map_DeepEqual None None = True"
| "map_DeepEqual (Some m1) (Some m2) =
     (length m1 = length m2 \<and> list_all (\<lambda>(k, v). map_of m2 k = Some v) m1)"
| "map_DeepEqual _ _ = False"

definition BoundQuery_DeepEqual :: "BoundQuery \<Rightarrow> BoundQuery \<Rightarrow> bool" where
  "BoundQuery_DeepEqual a b =
     (BoundQuery.Sql a = BoundQuery.Sql b
      \<and> map_DeepEqual (BoundQuery.BindVariables a) (BoundQuery.BindVariables b))"

text \<open>
  Two slices of bound queries are deeply equal when they have the same length and are
  deeply equal position by position. The expected slice has two elements, so a nil and
  an empty slice of queries both differ from it and need not be told apart.
\<close>

definition Queries_DeepEqual :: "BoundQuery list \<Rightarrow> BoundQuery list \<Rightarrow> bool" where
  "Queries_DeepEqual xs ys = list_all2 BoundQuery_DeepEqual xs ys"

section \<open>Errors\<close>

datatype ErrorType = ErrFail

record TabletError =
  ErrorType :: ErrorType
  Message :: string

definition NewTabletError :: "ErrorType \<Rightarrow> string \<Rightarrow> TabletError" where
  "NewTabletError errorType msg = \<lparr>ErrorType = errorType, Message = msg\<rparr>"

text \<open>
  Modelled from the spec: the method \<^verbatim>\<open>Error()\<close> of \<^verbatim>\<open>tabletserver.TabletError\<close>
  is not in the source files. The spec (sections 6 and 7) gives the text of an error
  as \<^verbatim>\<open>error: <message>\<close>; the constant \<^verbatim>\<open>expectedErrMatch\<close> of the test file is
  that text for the message \<^verbatim>\<open>generic error\<close>.
\<close>

definition TabletError_Error :: "TabletError \<Rightarrow> error" where
  "TabletError_Error e = ''error: '' @ Message e"

definition testTabletError :: error where
  "testTabletError = TabletError_Error (NewTabletError ErrFail ''generic error'')"

definition expectedErrMatch :: string where
  "expectedErrMatch = ''error: generic error''"

section \<open>The fake query service\<close>

text \<open>
  \<open>t_errors\<close> is the field \<^verbatim>\<open>t *testing.T\<close>: the list of failures recorded by
  \<^verbatim>\<open>f.t.Errorf\<close>, each kept as the constant head of its format string (the
  formatted operands are dropped). An empty list means the service saw nothing wrong.
\<close>

record FakeQueryService =
  t_errors :: "string list"
  hasError :: bool
  panics :: bool
  streamExecutePanicsEarly :: bool

definition t_Errorf :: "FakeQueryService \<Rightarrow> string \<Rightarrow> FakeQueryService" where
  "t_Errorf f msg = f\<lparr>t_errors := t_errors f @ [msg]\<rparr>"

text \<open>
  \<^verbatim>\<open>HandlePanic(err *error)\<close>: the first argument is what \<^verbatim>\<open>recover()\<close> returns
  (\<open>None\<close> when the goroutine is not panicking), the second the value \<^verbatim>\<open>*err\<close> holds;
  the result is the value \<^verbatim>\<open>*err\<close> holds afterwards.
\<close>

definition HandlePanic :: "string option \<Rightarrow> error option \<Rightarrow> error option" where
  "HandlePanic recovered err =
     (case recovered of
        Some x \<Rightarrow> Some (''caught test panic: '' @ x)
      | None \<Rightarrow> err)"

definition testSessionID :: int64 where
  "testSessionID = 5678"

definition beginTransactionID :: int64 where
  "beginTransactionID = 9990"

definition Begin ::
  "FakeQueryService \<Rightarrow> Session \<Rightarrow> TransactionInfo
     \<Rightarrow> FakeQueryService \<times> TransactionInfo \<times> error option outcome" where
  "Begin f session txInfo =
     (if hasError f then (f, txInfo, Return (Some testTabletError))
      else if panics f then (f, txInfo, Panic ''test-triggered panic'')
      else
        let f1 = (if Session.SessionId session \<noteq> testSessionID
                  then t_Errorf f ''Begin: invalid SessionId'' else f);
            f2 = (if Session.TransactionId session \<noteq> 0
                  then t_Errorf f1 ''Begin: invalid TransactionId'' else f1)
        in (f2, txInfo\<lparr>TransactionInfo.TransactionId := beginTransactionID\<rparr>, Return None))"

definition commitTransactionID :: int64 where
  "commitTransactionID = 999044"

definition Commit ::
  "FakeQueryService \<Rightarrow> Session \<Rightarrow> FakeQueryService \<times> error option outcome" where
  "Commit f session =
     (if hasError f then (f, Return (Some testTabletError))
      else if panics f then (f, Panic ''test-triggered panic'')
      else
        let f1 = (if Session.SessionId session \<noteq> testSessionID
                  then t_Errorf f ''Commit: invalid SessionId'' else f);
            f2 = (if Session.TransactionId session \<noteq> commitTransactionID
                  then t_Errorf f1 ''Commit: invalid TransactionId'' else f1)
        in (f2, Return None))"

definition rollbackTransactionID :: int64 where
  "rollbackTransactionID = 999044"

definition Rollback ::
  "FakeQueryService \<Rightarrow> Session \<Rightarrow> FakeQueryService \<times> error option outcome" where
  "Rollback f session =
     (if hasError f then (f, Return (Some testTabletError))
      else if panics f then (f, Panic ''test-triggered panic'')
      else
        let f1 = (if Session.SessionId session \<noteq> testSessionID
                  then t_Errorf f ''Rollback: invalid SessionId'' else f);
            f2 = (if Session.TransactionId session \<noteq> rollbackTransactionID
                  then t_Errorf f1 ''Rollback: invalid TransactionId'' else f1)
        in (f2, Return None))"

definition executeQuery :: string where
  "executeQuery = ''executeQuery''"

definition executeBindVars :: bindvars where
  "executeBindVars = Some [(''bind1'', Int64 1114444)]"

definition executeTransactionID :: int64 where
  "executeTransactionID = 678"

definition executeQueryResult :: QueryResult where
  "executeQueryResult =
     \<lparr>Fields = Some [\<lparr>Name = ''field1'', Type = 42\<rparr>, \<lparr>Name = ''field2'', Type = 73\<rparr>],
      RowsAffected = 123,
      InsertId = 72,
      Rows = Some [[MakeString ''row1 value1'', MakeString ''row1 value2''],
                   [MakeString ''row2 value1'', MakeString ''row2 value2'']]\<rparr>"

definition Execute ::
  "FakeQueryService \<Rightarrow> Query \<Rightarrow> QueryResult
     \<Rightarrow> FakeQueryService \<times> QueryResult \<times> error option outcome" where
  "Execute f query reply =
     (if hasError f then (f, reply, Return (Some testTabletError))
      else if panics f then (f, reply, Panic ''test-triggered panic'')
      else
        let f1 = (if Query.Sql query \<noteq> executeQuery
                  then t_Errorf f ''invalid Execute.Query.Sql'' else f);
            f2 = (if \<not> map_DeepEqual (Query.BindVariables query) executeBindVars
                  then t_Errorf f1 ''invalid Execute.Query.BindVariables'' else f1);
            f3 = (if Query.SessionId query \<noteq> testSessionID
                  then t_Errorf f2 ''invalid Execute.Query.SessionId'' else f2);
            f4 = (if Query.TransactionId query \<noteq> executeTransactionID
                  then t_Errorf f3 ''invalid Execute.Query.TransactionId'' else f3)
        in (f4, executeQueryResult, Return None))"

definition streamExecuteQuery :: string where
  "streamExecuteQuery = ''streamExecuteQuery''"

definition streamExecuteBindVars :: bindvars where
  "streamExecuteBindVars = Some [(''bind1'', Int64 93848000)]"

definition streamExecuteTransactionID :: int64 where
  "streamExecuteTransactionID = 6789992"

definition streamExecuteQueryResult1 :: QueryResult where
  "streamExecuteQueryResult1 =
     \<lparr>Fields = Some [\<lparr>Name = ''field1'', Type = 42\<rparr>, \<lparr>Name = ''field2'', Type = 73\<rparr>],
      RowsAffected = 0,
      InsertId = 0,
      Rows = None\<rparr>"

definition streamExecuteQueryResult2 :: QueryResult where
  "streamExecuteQueryResult2 =
     \<lparr>Fields = None,
      RowsAffected = 0,
      InsertId = 0,
      Rows = Some [[MakeString ''row1 value1'', MakeString ''row1 value2''],
                   [MakeString ''row2 value1'', MakeString ''row2 value2'']]\<rparr>"

text \<open>
  The package variables \<^verbatim>\<open>panicWait\<close> and \<^verbatim>\<open>errorWait\<close> are channels on which
  nothing is ever sent: a receive from one of them returns once the channel is closed,
  and never returns if it is never closed. The tests close \<^verbatim>\<open>errorWait\<close>
  (\<^verbatim>\<open>testStreamExecuteError\<close>) and \<^verbatim>\<open>panicWait\<close> (\<^verbatim>\<open>testStreamExecutePanics\<close>) once
  they have read the first chunk. A field below is \<open>True\<close> when the client closes that
  channel.
\<close>

record wait_channels =
  panicWait :: bool
  errorWait :: bool

text \<open>
  \<^verbatim>\<open>StreamExecute\<close> hands each chunk to the callback \<^verbatim>\<open>sendReply\<close>, which belongs
  to the transport: it is a parameter, threading the transport's state \<open>'s\<close>. The
  last component of the result is \<open>None\<close> when the call never returns: the service has
  sent the first chunk and waits on a channel that the client never closes.
\<close>

definition StreamExecute ::
  "wait_channels \<Rightarrow> FakeQueryService \<Rightarrow> Query \<Rightarrow> (QueryResult \<Rightarrow> 's \<Rightarrow> error option \<times> 's) \<Rightarrow> 's
     \<Rightarrow> FakeQueryService \<times> 's \<times> error option outcome option" where
  "StreamExecute chans f query sendReply s =
     (if panics f \<and> streamExecutePanicsEarly f
      then (f, s, Some (Panic ''test-triggered panic early''))
      else
        let f1 = (if Query.Sql query \<noteq> streamExecuteQuery
                  then t_Errorf f ''invalid StreamExecute.Query.Sql'' else f);
            f2 = (if \<not> map_DeepEqual (Query.BindVariables query) streamExecuteBindVars
                  then t_Errorf f1 ''invalid StreamExecute.Query.BindVariables'' else f1);
            f3 = (if Query.SessionId query \<noteq> testSessionID
                  then t_Errorf f2 ''invalid StreamExecute.Query.SessionId'' else f2);
            (e1, s1) = sendReply streamExecuteQueryResult1 s;
            f4 = (if e1 \<noteq> None then t_Errorf f3 ''sendReply1 failed'' else f3)
        in
          if panics f \<and> \<not> streamExecutePanicsEarly f
          then (if panicWait chans
                then (f4, s1, Some (Panic ''test-triggered panic late''))
                else (f4, s1, None))
          else if hasError f
          then (if errorWait chans
                then (f4, s1, Some (Return (Some testTabletError)))
                else (f4, s1, None))
          else
            let (e2, s2) = sendReply streamExecuteQueryResult2 s1;
                f5 = (if e2 \<noteq> None then t_Errorf f4 ''sendReply2 failed'' else f4)
            in (f5, s2, Some (Return None)))"

definition executeBatchQueries :: "BoundQuery list" where
  "executeBatchQueries =
     [\<lparr>Sql = ''executeBatchQueries1'', BindVariables = Some [(''bind1'', Int64 43)]\<rparr>,
      \<lparr>Sql = ''executeBatchQueries2'', BindVariables = Some [(''bind2'', Int64 72)]\<rparr>]"

definition executeBatchTransactionID :: int64 where
  "executeBatchTransactionID = 678"

definition executeBatchQueryResultList :: QueryResultList where
  "executeBatchQueryResultList =
     \<lparr>List =
        [\<lparr>Fields = Some [\<lparr>Name = ''field1'', Type = 46\<rparr>],
          RowsAffected = 1232,
          InsertId = 712,
          Rows = Some [[MakeString ''row1 value1''], [MakeString ''row2 value1'']]\<rparr>,
         \<lparr>Fields = Some [\<lparr>Name = ''field1'', Type = 42\<rparr>],
          RowsAffected = 12333,
          InsertId = 74442,
          Rows = Some [[MakeString ''row1 value1'', MakeString ''row1 value2'']]\<rparr>]\<rparr>"

definition ExecuteBatch ::
  "FakeQueryService \<Rightarrow> QueryList \<Rightarrow> QueryResultList
     \<Rightarrow> FakeQueryService \<times> QueryResultList \<times> error option outcome" where
  "ExecuteBatch f queryList reply =
     (if hasError f then (f, reply, Return (Some testTabletError))
      else if panics f then (f, reply, Panic ''test-triggered panic'')
      else
        let f1 = (if \<not> Queries_DeepEqual (QueryList.Queries queryList) executeBatchQueries
                  then t_Errorf f ''invalid ExecuteBatch.QueryList.Queries'' else f);
            f2 = (if QueryList.SessionId queryList \<noteq> testSessionID
                  then t_Errorf f1 ''invalid ExecuteBatch.QueryList.SessionId'' else f1);
            f3 = (if QueryList.TransactionId queryList \<noteq> executeBatchTransactionID
                  then t_Errorf f2 ''invalid ExecuteBatch.QueryList.TransactionId'' else f2)
        in (f3, executeBatchQueryResultList, Return None))"

definition splitQueryBoundQuery :: BoundQuery where
  "splitQueryBoundQuery =
     \<lparr>Sql = ''splitQuery'', BindVariables = Some [(''bind1'', Int64 43)]\<rparr>"

definition splitQuerySplitCount :: int64 where
  "splitQuerySplitCount = 372"

definition splitQueryQuerySplitList :: "QuerySplit list" where
  "splitQueryQuerySplitList =
     [\<lparr>Query = \<lparr>Sql = ''splitQuery'',
                BindVariables = Some [(''bind1'', Int64 43), (''keyspace_id'', Int64 3333)]\<rparr>,
       RowCount = 4456\<rparr>]"

definition SplitQuery ::
  "FakeQueryService \<Rightarrow> SplitQueryRequest \<Rightarrow> SplitQueryResult
     \<Rightarrow> FakeQueryService \<times> SplitQueryResult \<times> error option outcome" where
  "SplitQuery f req reply =
     (if hasError f then (f, reply, Return (Some testTabletError))
      else if panics f then (f, reply, Panic ''test-triggered panic'')
      else
        let f1 = (if \<not> BoundQuery_DeepEqual (SplitQueryRequest.Query req) splitQueryBoundQuery
                  then t_Errorf f ''invalid SplitQuery.SplitQueryRequest.Query'' else f);
            f2 = (if SplitCount req \<noteq> splitQuerySplitCount
                  then t_Errorf f1 ''invalid SplitQuery.SplitQueryRequest.SplitCount'' else f1)
        in (f2, reply\<lparr>SplitQueryResult.Queries := splitQueryQuerySplitList\<rparr>, Return None))"

definition CreateFakeServer :: FakeQueryService where
  "CreateFakeServer =
     \<lparr>t_errors = [], hasError = False, panics = False, streamExecutePanicsEarly = False\<rparr>"

text \<open>
  \<^verbatim>\<open>GetSessionId\<close>: the handshake by which a connection learns its session id.
\<close>

definition TestKeyspace :: string where
  "TestKeyspace = ''test_keyspace''"

definition TestShard :: string where
  "TestShard = ''test_shard''"

record SessionParams =
  Keyspace :: string
  Shard :: string

record SessionInfo =
  SessionId :: int64

definition GetSessionId ::
  "FakeQueryService \<Rightarrow> SessionParams \<Rightarrow> SessionInfo
     \<Rightarrow> FakeQueryService \<times> SessionInfo \<times> error option outcome" where
  "GetSessionId f sessionParams sessionInfo =
     (let f1 = (if Keyspace sessionParams \<noteq> TestKeyspace
                then t_Errorf f ''invalid keyspace'' else f);
          f2 = (if Shard sessionParams \<noteq> TestShard
                then t_Errorf f1 ''invalid shard'' else f1)
      in (f2, sessionInfo\<lparr>SessionInfo.SessionId := testSessionID\<rparr>, Return None))"

section \<open>The chunks of a stream\<close>


text \<open>
  A transport callback that delivers a chunk when its send succeeds and drops it when
  the send fails; its state is the sequence of chunks delivered. \<open>never_fails\<close> and
  \<open>fails_on\<close> choose the sends that fail: none, or those of one given chunk.
\<close>

definition wire_send ::
  "(QueryResult \<Rightarrow> error option) \<Rightarrow> QueryResult \<Rightarrow> QueryResult list
     \<Rightarrow> error option \<times> QueryResult list" where
  "wire_send fail qr delivered =
     (case fail qr of
        None \<Rightarrow> (None, delivered @ [qr])
      | Some e \<Rightarrow> (Some e, delivered))"

definition never_fails :: "QueryResult \<Rightarrow> error option" where
  "never_fails qr = None"

definition fails_on :: "QueryResult \<Rightarrow> QueryResult \<Rightarrow> error option" where
  "fails_on bad qr = (if qr = bad then Some ''send failed'' else None)"




section \<open>The entry points behind the fault guard\<close>

text \<open>
  Modelled from the spec: the callers of \<^verbatim>\<open>HandlePanic\<close> (the RPC servers that expose
  the service) are not in the source files. Section 4.5 of the spec wraps every entry
  point in a per-call guard, "a deferred/guarded scope" (section 9): the entry point
  runs under \<^verbatim>\<open>defer HandlePanic(&err)\<close>, \<^verbatim>\<open>err\<close> being its result. When the body
  returns, \<^verbatim>\<open>recover()\<close> gives nil; when it panics, \<^verbatim>\<open>err\<close> still holds nil.
\<close>

definition guarded :: "error option outcome \<Rightarrow> error option" where
  "guarded out =
     (case out of
        Return err \<Rightarrow> HandlePanic None err
      | Panic x \<Rightarrow> HandlePanic (Some x) None)"

text \<open>
  Modelled from the spec: the two ways an error travels back (section 4.6), as part of
  the reply (an embedded error field) or as the failure of the call. The client reads
  the error of a call from whichever of the two carries it.
\<close>

record 'a rpc_reply =
  call_failure :: "error option"
  embedded_error :: "error option"
  payload :: 'a

text \<open>
  Modelled from the spec: delivery of an error by one of the two conventions of section 4.6,
  inside the reply when \<open>in_reply\<close> is set and as the failure of the call otherwise.
\<close>

definition deliver :: "bool \<Rightarrow> error option \<Rightarrow> 'a \<Rightarrow> 'a rpc_reply" where
  "deliver in_reply err x =
     (if in_reply
      then \<lparr>call_failure = None, embedded_error = err, payload = x\<rparr>
      else \<lparr>call_failure = err, embedded_error = None, payload = x\<rparr>)"

text \<open>
  Modelled from the spec: the error the caller reads from a reply, the failure of the call or,
  without one, the embedded error (section 4.6: the same content by either channel).
\<close>

definition surfaced :: "'a rpc_reply \<Rightarrow> error option" where
  "surfaced r = (case call_failure r of Some e \<Rightarrow> Some e | None \<Rightarrow> embedded_error r)"

text \<open>
  Modelled from the spec: the RPC methods of the server, which are not in the source
  files. Each runs the method of the service on a zero reply value, under the guard.
  The first (legacy) form of a transaction-control method delivers its error by the
  convention the server-wide flag \<^verbatim>\<open>RPCErrorOnlyInReply\<close> selects; the second form always
  fails the call (section 4.6). Both forms run the same method of the service
  (section 9: one internal operation plus a thin adapter).
\<close>

definition rpc_Begin ::
  "bool \<Rightarrow> FakeQueryService \<Rightarrow> Session \<Rightarrow> FakeQueryService \<times> TransactionInfo rpc_reply" where
  "rpc_Begin RPCErrorOnlyInReply f session =
     (case Begin f session \<lparr>TransactionInfo.TransactionId = 0\<rparr> of
        (f', txInfo, out) \<Rightarrow> (f', deliver RPCErrorOnlyInReply (guarded out) txInfo))"

text \<open>
  Modelled from the spec: the second form of \<^verbatim>\<open>Begin\<close> on the server (sections 4.5, 4.6).
\<close>

definition rpc_Begin2 ::
  "FakeQueryService \<Rightarrow> Session \<Rightarrow> FakeQueryService \<times> TransactionInfo rpc_reply" where
  "rpc_Begin2 f session =
     (case Begin f session \<lparr>TransactionInfo.TransactionId = 0\<rparr> of
        (f', txInfo, out) \<Rightarrow> (f', deliver False (guarded out) txInfo))"

text \<open>
  Modelled from the spec: the first form of \<^verbatim>\<open>Commit\<close> on the server (sections 4.5, 4.6).
\<close>

definition rpc_Commit ::
  "bool \<Rightarrow> FakeQueryService \<Rightarrow> Session \<Rightarrow> FakeQueryService \<times> unit rpc_reply" where
  "rpc_Commit RPCErrorOnlyInReply f session =
     (case Commit f session of
        (f', out) \<Rightarrow> (f', deliver RPCErrorOnlyInReply (guarded out) ()))"

text \<open>
  Modelled from the spec: the second form of \<^verbatim>\<open>Commit\<close> on the server (sections 4.5, 4.6).
\<close>

definition rpc_Commit2 ::
  "FakeQueryService \<Rightarrow> Session \<Rightarrow> FakeQueryService \<times> unit rpc_reply" where
  "rpc_Commit2 f session =
     (case Commit f session of (f', out) \<Rightarrow> (f', deliver False (guarded out) ()))"

text \<open>
  Modelled from the spec: the first form of \<^verbatim>\<open>Rollback\<close> on the server (sections 4.5, 4.6).
\<close>

definition rpc_Rollback ::
  "bool \<Rightarrow> FakeQueryService \<Rightarrow> Session \<Rightarrow> FakeQueryService \<times> unit rpc_reply" where
  "rpc_Rollback RPCErrorOnlyInReply f session =
     (case Rollback f session of
        (f', out) \<Rightarrow> (f', deliver RPCErrorOnlyInReply (guarded out) ()))"

text \<open>
  Modelled from the spec: the second form of \<^verbatim>\<open>Rollback\<close> on the server (sections 4.5, 4.6).
\<close>

definition rpc_Rollback2 ::
  "FakeQueryService \<Rightarrow> Session \<Rightarrow> FakeQueryService \<times> unit rpc_reply" where
  "rpc_Rollback2 f session =
     (case Rollback f session of (f', out) \<Rightarrow> (f', deliver False (guarded out) ()))"

definition zero_QueryResult :: QueryResult where
  "zero_QueryResult = \<lparr>Fields = None, RowsAffected = 0, InsertId = 0, Rows = None\<rparr>"

text \<open>
  Modelled from the spec: \<^verbatim>\<open>Execute\<close> on the server, under the guard (section 4.5); the reply starts
  as the zero value \<open>zero_QueryResult\<close>.
\<close>

definition rpc_Execute ::
  "FakeQueryService \<Rightarrow> Query \<Rightarrow> FakeQueryService \<times> QueryResult rpc_reply" where
  "rpc_Execute f query =
     (case Execute f query zero_QueryResult of
        (f', reply, out) \<Rightarrow> (f', deliver False (guarded out) reply))"

text \<open>
  Modelled from the spec: \<^verbatim>\<open>ExecuteBatch\<close> on the server, under the guard (section 4.5).
\<close>

definition rpc_ExecuteBatch ::
  "FakeQueryService \<Rightarrow> QueryList \<Rightarrow> FakeQueryService \<times> QueryResultList rpc_reply" where
  "rpc_ExecuteBatch f queryList =
     (case ExecuteBatch f queryList \<lparr>List = []\<rparr> of
        (f', reply, out) \<Rightarrow> (f', deliver False (guarded out) reply))"

text \<open>
  Modelled from the spec: \<^verbatim>\<open>SplitQuery\<close> on the server, under the guard (section 4.5).
\<close>

definition rpc_SplitQuery ::
  "FakeQueryService \<Rightarrow> SplitQueryRequest \<Rightarrow> FakeQueryService \<times> SplitQueryResult rpc_reply" where
  "rpc_SplitQuery f req =
     (case SplitQuery f req \<lparr>SplitQueryResult.Queries = []\<rparr> of
        (f', reply, out) \<Rightarrow> (f', deliver False (guarded out) reply))"

text \<open>
  Modelled from the spec: \<^verbatim>\<open>StreamExecute\<close> on the server, under the guard. It sends
  each chunk on the wire as the service hands it over, and no send fails. The error of
  the call travels after the chunks, once the call has ended (sections 4.3, 4.5). The
  result holds the chunks delivered and the error of the call, \<open>None\<close> while the call
  has not ended.
\<close>

definition rpc_StreamExecute ::
  "wait_channels \<Rightarrow> FakeQueryService \<Rightarrow> Query
     \<Rightarrow> FakeQueryService \<times> QueryResult list \<times> error option option" where
  "rpc_StreamExecute chans f query =
     (case StreamExecute chans f query (wire_send never_fails) [] of
        (f', delivered, out) \<Rightarrow> (f', delivered, map_option guarded out))"

text \<open>
  Modelled from the spec: the second form of \<^verbatim>\<open>StreamExecute\<close> on the server; the
  service has one streaming method, which both forms run.
\<close>

definition rpc_StreamExecute2 ::
  "wait_channels \<Rightarrow> FakeQueryService \<Rightarrow> Query
     \<Rightarrow> FakeQueryService \<times> QueryResult list \<times> error option option" where
  "rpc_StreamExecute2 chans f query = rpc_StreamExecute chans f query"

text \<open>
  Modelled from the spec: the calls a server answers and the replies it gives, one
  constructor for each entry point (sections 4.5, 4.6 and 6).
\<close>

datatype call =
    Begin_call Session
  | Begin2_call Session
  | Commit_call Session
  | Commit2_call Session
  | Rollback_call Session
  | Rollback2_call Session
  | Execute_call Query
  | ExecuteBatch_call QueryList
  | StreamExecute_call Query
  | StreamExecute2_call Query
  | SplitQuery_call SplitQueryRequest

text \<open>
  Modelled from the spec: the payload of the reply of each kind of call (section 6).
\<close>

datatype response =
    TransactionInfo_response TransactionInfo
  | Empty_response
  | QueryResult_response QueryResult
  | QueryResultList_response QueryResultList
  | Stream_response "QueryResult list"
  | SplitQueryResult_response SplitQueryResult

text \<open>
  Modelled from the spec: what the caller of an entry point gets from its reply: the payload
  and the error read from it.
\<close>

definition answer ::
  "('a \<Rightarrow> response) \<Rightarrow> FakeQueryService \<times> 'a rpc_reply
     \<Rightarrow> FakeQueryService \<times> response \<times> error option" where
  "answer wrap fr = (case fr of (f', r) \<Rightarrow> (f', wrap (payload r), surfaced r))"

text \<open>
  Modelled from the spec: what the caller of a streaming entry point gets, once the
  call has ended: the chunks delivered and the error of the call.
\<close>

definition answer_stream ::
  "FakeQueryService \<times> QueryResult list \<times> error option option
     \<Rightarrow> (FakeQueryService \<times> response \<times> error option) option" where
  "answer_stream fr =
     (case fr of (f', sent, ended) \<Rightarrow>
        (case ended of
           None \<Rightarrow> None
         | Some err \<Rightarrow> Some (f', Stream_response sent, err)))"

text \<open>
  Modelled from the spec: the entry points of the server as one function of the call
  (section 4.5 names them; the second forms are those of section 4.6). The result is
  \<open>None\<close> when the call never returns.
\<close>

fun serve ::
  "wait_channels \<Rightarrow> bool \<Rightarrow> FakeQueryService \<Rightarrow> call
     \<Rightarrow> (FakeQueryService \<times> response \<times> error option) option" where
  "serve chans flag f (Begin_call s) =
     Some (answer TransactionInfo_response (rpc_Begin flag f s))"
| "serve chans flag f (Begin2_call s) =
     Some (answer TransactionInfo_response (rpc_Begin2 f s))"
| "serve chans flag f (Commit_call s) =
     Some (answer (\<lambda>u. Empty_response) (rpc_Commit flag f s))"
| "serve chans flag f (Commit2_call s) =
     Some (answer (\<lambda>u. Empty_response) (rpc_Commit2 f s))"
| "serve chans flag f (Rollback_call s) =
     Some (answer (\<lambda>u. Empty_response) (rpc_Rollback flag f s))"
| "serve chans flag f (Rollback2_call s) =
     Some (answer (\<lambda>u. Empty_response) (rpc_Rollback2 f s))"
| "serve chans flag f (Execute_call q) =
     Some (answer QueryResult_response (rpc_Execute f q))"
| "serve chans flag f (ExecuteBatch_call ql) =
     Some (answer QueryResultList_response (rpc_ExecuteBatch f ql))"
| "serve chans flag f (StreamExecute_call q) = answer_stream (rpc_StreamExecute chans f q)"
| "serve chans flag f (StreamExecute2_call q) = answer_stream (rpc_StreamExecute2 chans f q)"
| "serve chans flag f (SplitQuery_call r) =
     Some (answer SplitQueryResult_response (rpc_SplitQuery f r))"

text \<open>The flags of the service: what decides how it answers a call.\<close>

definition flags :: "FakeQueryService \<Rightarrow> bool \<times> bool \<times> bool" where
  "flags f = (hasError f, panics f, streamExecutePanicsEarly f)"

text \<open>
  Whether the body of the entry point panics. The streaming method panics when
  \<^verbatim>\<open>panics\<close> is set, at once with \<^verbatim>\<open>streamExecutePanicsEarly\<close> and otherwise once the
  client has closed \<^verbatim>\<open>panicWait\<close>; every other method panics when \<^verbatim>\<open>panics\<close> is set
  and \<^verbatim>\<open>hasError\<close> is not (it returns the error before it looks at \<^verbatim>\<open>panics\<close>).
\<close>

fun faults :: "wait_channels \<Rightarrow> FakeQueryService \<Rightarrow> call \<Rightarrow> bool" where
  "faults chans f (StreamExecute_call q) =
     (panics f \<and> (streamExecutePanicsEarly f \<or> panicWait chans))"
| "faults chans f (StreamExecute2_call q) =
     (panics f \<and> (streamExecutePanicsEarly f \<or> panicWait chans))"
| "faults chans f c = (panics f \<and> \<not> hasError f)"

text \<open>
  Whether the streaming method waits for ever: it has sent the first chunk and receives
  from \<^verbatim>\<open>panicWait\<close> (with \<^verbatim>\<open>panics\<close> set and \<^verbatim>\<open>streamExecutePanicsEarly\<close> not) or
  from \<^verbatim>\<open>errorWait\<close> (with \<^verbatim>\<open>hasError\<close> set and \<^verbatim>\<open>panics\<close> not), and the client never
  closes that channel. No other method waits.
\<close>

definition waits_forever :: "wait_channels \<Rightarrow> FakeQueryService \<Rightarrow> bool" where
  "waits_forever chans f =
     (if panics f then \<not> streamExecutePanicsEarly f \<and> \<not> panicWait chans
      else hasError f \<and> \<not> errorWait chans)"

fun blocks :: "wait_channels \<Rightarrow> FakeQueryService \<Rightarrow> call \<Rightarrow> bool" where
  "blocks chans f (StreamExecute_call q) = waits_forever chans f"
| "blocks chans f (StreamExecute2_call q) = waits_forever chans f"
| "blocks chans f c = False"

section \<open>The client side of a connection\<close>

text \<open>
  What a receiver sees on a Go channel, event by event: a chunk, or the close. A
  receive from a closed channel reports the close again and again; a receive from a
  channel that holds nothing and is never closed never returns.
\<close>

datatype event = Chunk QueryResult | Closed

datatype received = Got QueryResult | NotOk | Blocks

fun receive :: "event list \<Rightarrow> received \<times> event list" where
  "receive [] = (Blocks, [])"
| "receive (Chunk qr # evs) = (Got qr, evs)"
| "receive (Closed # evs) = (NotOk, Closed # evs)"

fun chunks_of :: "event list \<Rightarrow> QueryResult list" where
  "chunks_of [] = []"
| "chunks_of (Chunk qr # evs) = qr # chunks_of evs"
| "chunks_of (Closed # evs) = []"

text \<open>
  The three results of \<^verbatim>\<open>conn.StreamExecute\<close>: the stream, the value its terminal-error
  accessor \<^verbatim>\<open>errFunc\<close> returns once the stream is closed, and the error of the call.
\<close>

record stream_call =
  stream :: "event list"
  errFunc :: "error option"
  call_error :: "error option"

text \<open>
  Modelled from the spec: \<^verbatim>\<open>tabletconn.TabletConn\<close>, the client, is not in the source
  files. A connection holds the session id of its handshake; its calls are those of
  section 6 of the spec. \<open>RPCErrorOnlyInReply\<close> is the server-wide flag of section 4.6.
  A streaming call gives the chunks in the order sent, closes the stream once the
  server is done, and then sets the terminal error (sections 4.3 and 9). A failure
  that comes before the first chunk is reported by the call itself (section 4.5).
\<close>

record TabletConn =
  sessionId :: int64
  RPCErrorOnlyInReply :: bool

text \<open>
  Modelled from the spec: opening a connection: the handshake \<^verbatim>\<open>GetSessionId\<close> with the keyspace
  and the shard of the tests gives the session id (section 6).
\<close>

definition DialTablet :: "bool \<Rightarrow> FakeQueryService \<Rightarrow> FakeQueryService \<times> TabletConn" where
  "DialTablet inReply f =
     (case GetSessionId f \<lparr>Keyspace = TestKeyspace, Shard = TestShard\<rparr>
             \<lparr>SessionInfo.SessionId = 0\<rparr> of
        (f', sessionInfo, out) \<Rightarrow>
          (f', \<lparr>sessionId = SessionInfo.SessionId sessionInfo,
                RPCErrorOnlyInReply = inReply\<rparr>))"

text \<open>
  Modelled from the spec: \<^verbatim>\<open>Begin(session_id) -> transaction_id\<close> of section 6, first form. The
  session of the request names no transaction.
\<close>

definition conn_Begin ::
  "TabletConn \<Rightarrow> FakeQueryService \<Rightarrow> FakeQueryService \<times> int64 \<times> error option" where
  "conn_Begin conn f =
     (case rpc_Begin (RPCErrorOnlyInReply conn) f
             \<lparr>Session.SessionId = sessionId conn, Session.TransactionId = 0\<rparr> of
        (f', r) \<Rightarrow> (f', TransactionInfo.TransactionId (payload r), surfaced r))"

text \<open>
  Modelled from the spec: \<^verbatim>\<open>Begin\<close> of section 6, second form.
\<close>

definition conn_Begin2 ::
  "TabletConn \<Rightarrow> FakeQueryService \<Rightarrow> FakeQueryService \<times> int64 \<times> error option" where
  "conn_Begin2 conn f =
     (case rpc_Begin2 f \<lparr>Session.SessionId = sessionId conn, Session.TransactionId = 0\<rparr> of
        (f', r) \<Rightarrow> (f', TransactionInfo.TransactionId (payload r), surfaced r))"

text \<open>
  Modelled from the spec: \<^verbatim>\<open>Commit(session_id, transaction_id)\<close> of section 6, first form.
\<close>

definition conn_Commit ::
  "TabletConn \<Rightarrow> FakeQueryService \<Rightarrow> int64 \<Rightarrow> FakeQueryService \<times> error option" where
  "conn_Commit conn f transactionID =
     (case rpc_Commit (RPCErrorOnlyInReply conn) f
             \<lparr>Session.SessionId = sessionId conn, Session.TransactionId = transactionID\<rparr> of
        (f', r) \<Rightarrow> (f', surfaced r))"

text \<open>
  Modelled from the spec: \<^verbatim>\<open>Commit\<close> of section 6, second form.
\<close>

definition conn_Commit2 ::
  "TabletConn \<Rightarrow> FakeQueryService \<Rightarrow> int64 \<Rightarrow> FakeQueryService \<times> error option" where
  "conn_Commit2 conn f transactionID =
     (case rpc_Commit2 f \<lparr>Session.SessionId = sessionId conn, Session.TransactionId = transactionID\<rparr> of
        (f', r) \<Rightarrow> (f', surfaced r))"

text \<open>
  Modelled from the spec: \<^verbatim>\<open>Rollback(session_id, transaction_id)\<close> of section 6, first form.
\<close>

definition conn_Rollback ::
  "TabletConn \<Rightarrow> FakeQueryService \<Rightarrow> int64 \<Rightarrow> FakeQueryService \<times> error option" where
  "conn_Rollback conn f transactionID =
     (case rpc_Rollback (RPCErrorOnlyInReply conn) f
             \<lparr>Session.SessionId = sessionId conn, Session.TransactionId = transactionID\<rparr> of
        (f', r) \<Rightarrow> (f', surfaced r))"

text \<open>
  Modelled from the spec: \<^verbatim>\<open>Rollback\<close> of section 6, second form.
\<close>

definition conn_Rollback2 ::
  "TabletConn \<Rightarrow> FakeQueryService \<Rightarrow> int64 \<Rightarrow> FakeQueryService \<times> error option" where
  "conn_Rollback2 conn f transactionID =
     (case rpc_Rollback2 f \<lparr>Session.SessionId = sessionId conn, Session.TransactionId = transactionID\<rparr> of
        (f', r) \<Rightarrow> (f', surfaced r))"

text \<open>
  Modelled from the spec: \<^verbatim>\<open>ExecuteBatch(session_id, transaction_id, list<BoundQuery>)\<close> of
  section 6.
\<close>

definition conn_ExecuteBatch ::
  "TabletConn \<Rightarrow> FakeQueryService \<Rightarrow> BoundQuery list \<Rightarrow> int64
     \<Rightarrow> FakeQueryService \<times> QueryResultList \<times> error option" where
  "conn_ExecuteBatch conn f queries transactionID =
     (case rpc_ExecuteBatch f
             \<lparr>QueryList.Queries = queries, QueryList.SessionId = sessionId conn,
              QueryList.TransactionId = transactionID\<rparr> of
        (f', r) \<Rightarrow> (f', payload r, surfaced r))"

text \<open>
  Modelled from the spec: \<^verbatim>\<open>StreamExecute\<close> of sections 4.3, 4.5 and 6. A failure
  before any chunk fails the call itself, and there is no stream. Otherwise the stream
  gives the chunks delivered, in the order sent; once the call has ended on the server
  the stream is closed and \<^verbatim>\<open>errFunc\<close> holds the error of the call. While the call
  has not ended the stream stays open and \<^verbatim>\<open>errFunc\<close> is not set. \<open>chans\<close> tells
  which wait channels the client closes.
\<close>

definition conn_StreamExecute ::
  "TabletConn \<Rightarrow> wait_channels \<Rightarrow> FakeQueryService \<Rightarrow> string \<Rightarrow> bindvars \<Rightarrow> int64
     \<Rightarrow> FakeQueryService \<times> stream_call" where
  "conn_StreamExecute conn chans f query bindVars transactionID =
     (case rpc_StreamExecute chans f
             \<lparr>Query.Sql = query, Query.BindVariables = bindVars,
              Query.SessionId = sessionId conn, Query.TransactionId = transactionID\<rparr> of
        (f', delivered, ended) \<Rightarrow>
          (f',
           case ended of
             None \<Rightarrow> \<lparr>stream = map Chunk delivered, errFunc = None, call_error = None\<rparr>
           | Some err \<Rightarrow>
               if delivered = [] \<and> err \<noteq> None
               then \<lparr>stream = [], errFunc = None, call_error = err\<rparr>
               else \<lparr>stream = map Chunk delivered @ [Closed], errFunc = err,
                     call_error = None\<rparr>))"

section \<open>The tests\<close>

text \<open>
  Each test is embedded as the function from what its call \<^verbatim>\<open>conn.X(...)\<close> returned
  to the failures it reports (the constant head of each message), in order;
  \<^verbatim>\<open>t.Fatalf\<close> ends the test, \<^verbatim>\<open>t.Errorf\<close> lets it go on. A test that passes reports
  nothing. \<^verbatim>\<open>reflect.DeepEqual\<close> on two \<^verbatim>\<open>QueryResult\<close> values is their equality (the
  rows of the fixtures are non-empty, so a nil row and an empty one need not be told
  apart).
\<close>

definition testBegin :: "int64 \<times> error option \<Rightarrow> string list" where
  "testBegin res =
     (case res of (transactionID, err) \<Rightarrow>
        if err \<noteq> None then [''Begin failed'']
        else if transactionID \<noteq> beginTransactionID then [''Unexpected result from Begin'']
        else [])"

definition testBeginError :: "int64 \<times> error option \<Rightarrow> string list" where
  "testBeginError res =
     (case res of (transactionID, err) \<Rightarrow>
        (case err of
           None \<Rightarrow> [''Begin was expecting an error'']
         | Some e \<Rightarrow>
             if \<not> strings_Contains e expectedErrMatch then [''Unexpected error from Begin'']
             else []))"

definition testBeginPanics :: "int64 \<times> error option \<Rightarrow> string list" where
  "testBeginPanics res =
     (case res of (transactionID, err) \<Rightarrow>
        (case err of
           None \<Rightarrow> [''unexpected panic error'']
         | Some e \<Rightarrow>
             if \<not> strings_Contains e ''caught test panic'' then [''unexpected panic error'']
             else []))"

definition testBegin2 :: "int64 \<times> error option \<Rightarrow> string list" where
  "testBegin2 res =
     (case res of (transactionId, err) \<Rightarrow>
        if err \<noteq> None then [''Begin2 failed'']
        else if transactionId \<noteq> beginTransactionID then [''Unexpected result from Begin2'']
        else [])"

definition testBegin2Error :: "int64 \<times> error option \<Rightarrow> string list" where
  "testBegin2Error res =
     (case res of (transactionId, err) \<Rightarrow>
        (case err of
           None \<Rightarrow> [''Begin2 was expecting an error'']
         | Some e \<Rightarrow>
             if \<not> strings_Contains e expectedErrMatch then [''Unexpected error from Begin2'']
             else []))"

text \<open>
  \<^verbatim>\<open>testCommitError\<close> calls \<^verbatim>\<open>Commit2\<close> when the flag \<^verbatim>\<open>RPCErrorOnlyInReply\<close> is set
  and \<^verbatim>\<open>Commit\<close> otherwise: its arguments are the flag and what each call returns.
\<close>

definition testCommitError :: "bool \<Rightarrow> error option \<Rightarrow> error option \<Rightarrow> string list" where
  "testCommitError flag commit2 commit =
     (let err = (if flag then commit2 else commit) in
      case err of
        None \<Rightarrow> [''Commit was expecting an error'']
      | Some e \<Rightarrow>
          if \<not> strings_Contains e expectedErrMatch then [''Unexpected error from Commit'']
          else [])"

definition testRollbackError :: "bool \<Rightarrow> error option \<Rightarrow> error option \<Rightarrow> string list" where
  "testRollbackError flag rollback2 rollback =
     (let err = (if flag then rollback2 else rollback) in
      case err of
        None \<Rightarrow> [''Rollback was expecting an error'']
      | Some e \<Rightarrow>
          if \<not> strings_Contains e expectedErrMatch then [''Unexpected error from Rollback'']
          else [])"

text \<open>
  \<^verbatim>\<open>testStreamExecute\<close> closes neither channel; \<^verbatim>\<open>testStreamExecuteError\<close> closes
  \<^verbatim>\<open>errorWait\<close> once it has read the first chunk; \<^verbatim>\<open>testStreamExecutePanics\<close> closes
  \<^verbatim>\<open>panicWait\<close> once it has read the first chunk of its second call, and nothing during
  its first call.
\<close>

definition no_close :: wait_channels where
  "no_close = \<lparr>panicWait = False, errorWait = False\<rparr>"

definition close_errorWait :: wait_channels where
  "close_errorWait = \<lparr>panicWait = False, errorWait = True\<rparr>"

definition close_panicWait :: wait_channels where
  "close_panicWait = \<lparr>panicWait = True, errorWait = False\<rparr>"

definition testStreamExecute :: "stream_call \<Rightarrow> string list" where
  "testStreamExecute res =
     (if call_error res \<noteq> None then [''StreamExecute failed'']
      else
        (case receive (stream res) of
           (Blocks, s1) \<Rightarrow> [''receive never returns'']
         | (NotOk, s1) \<Rightarrow> [''StreamExecute failed: cannot read result1'']
         | (Got qr, s1) \<Rightarrow>
             (let qr1 = (if slice_len (Rows qr) = 0 then qr\<lparr>Rows := None\<rparr> else qr);
                  e1 = (if qr1 \<noteq> streamExecuteQueryResult1
                        then [''Unexpected result1 from StreamExecute''] else [])
              in
                (case receive s1 of
                   (Blocks, s2) \<Rightarrow> (e1 @ [''receive never returns''])
                 | (NotOk, s2) \<Rightarrow> (e1 @ [''StreamExecute failed: cannot read result2''])
                 | (Got qr', s2) \<Rightarrow>
                     (let qr2 = (if slice_len (Fields qr') = 0
                                 then qr'\<lparr>Fields := None\<rparr> else qr');
                          e2 = (if qr2 \<noteq> streamExecuteQueryResult2
                                then e1 @ [''Unexpected result2 from StreamExecute''] else e1)
                      in
                        (case receive s2 of
                           (Blocks, s3) \<Rightarrow> (e2 @ [''receive never returns''])
                         | (Got qr'', s3) \<Rightarrow> (e2 @ [''StreamExecute channel was not closed''])
                         | (NotOk, s3) \<Rightarrow>
                             (if errFunc res \<noteq> None
                              then e2 @ [''StreamExecute errFunc failed'']
                              else e2)))))))"

definition testStreamExecuteError :: "stream_call \<Rightarrow> string list" where
  "testStreamExecuteError res =
     (if call_error res \<noteq> None then [''StreamExecute failed'']
      else
        (case receive (stream res) of
           (Blocks, s1) \<Rightarrow> [''receive never returns'']
         | (NotOk, s1) \<Rightarrow> [''StreamExecute failed: cannot read result1'']
         | (Got qr, s1) \<Rightarrow>
             (let qr1 = (if slice_len (Rows qr) = 0 then qr\<lparr>Rows := None\<rparr> else qr);
                  e1 = (if qr1 \<noteq> streamExecuteQueryResult1
                        then [''Unexpected result1 from StreamExecute''] else [])
              in
                (case receive s1 of
                   (Blocks, s2) \<Rightarrow> (e1 @ [''receive never returns''])
                 | (Got qr', s2) \<Rightarrow> (e1 @ [''StreamExecute channel was not closed''])
                 | (NotOk, s2) \<Rightarrow>
                     (case errFunc res of
                        None \<Rightarrow> (e1 @ [''StreamExecute was expecting an error''])
                      | Some e \<Rightarrow>
                          (if \<not> strings_Contains e expectedErrMatch
                           then e1 @ [''Unexpected error from StreamExecute'']
                           else e1))))))"

text \<open>
  \<^verbatim>\<open>testStreamExecutePanics\<close> makes two calls, the first with
  \<^verbatim>\<open>streamExecutePanicsEarly\<close> set and the second with it cleared: its arguments are
  what the two calls return. The second call is made only if the first part did not
  end the test.
\<close>

definition testStreamExecutePanics_early :: "stream_call \<Rightarrow> string list" where
  "testStreamExecutePanics_early res =
     (case call_error res of
        Some e \<Rightarrow>
          if \<not> strings_Contains e ''caught test panic'' then [''unexpected panic error'']
          else []
      | None \<Rightarrow>
          (case receive (stream res) of
             (Blocks, s1) \<Rightarrow> [''receive never returns'']
           | (Got qr, s1) \<Rightarrow> [''StreamExecute early panic should not return anything'']
           | (NotOk, s1) \<Rightarrow>
               (case errFunc res of
                  None \<Rightarrow> [''unexpected panic error'']
                | Some e \<Rightarrow>
                    if \<not> strings_Contains e ''caught test panic''
                    then [''unexpected panic error'']
                    else [])))"

definition testStreamExecutePanics_late :: "stream_call \<Rightarrow> string list" where
  "testStreamExecutePanics_late res =
     (if call_error res \<noteq> None then [''StreamExecute failed'']
      else
        (case receive (stream res) of
           (Blocks, s1) \<Rightarrow> [''receive never returns'']
         | (NotOk, s1) \<Rightarrow> [''StreamExecute failed: cannot read result1'']
         | (Got qr, s1) \<Rightarrow>
             (let qr1 = (if slice_len (Rows qr) = 0 then qr\<lparr>Rows := None\<rparr> else qr);
                  e1 = (if qr1 \<noteq> streamExecuteQueryResult1
                        then [''Unexpected result1 from StreamExecute''] else [])
              in
                (case receive s1 of
                   (Blocks, s2) \<Rightarrow> (e1 @ [''receive never returns''])
                 | (Got qr', s2) \<Rightarrow> (e1 @ [''StreamExecute returned more results''])
                 | (NotOk, s2) \<Rightarrow>
                     (case errFunc res of
                        None \<Rightarrow> (e1 @ [''unexpected panic error''])
                      | Some e \<Rightarrow>
                          (if \<not> strings_Contains e ''caught test panic''
                           then e1 @ [''unexpected panic error'']
                           else e1))))))"

definition testStreamExecutePanics :: "stream_call \<Rightarrow> stream_call \<Rightarrow> string list" where
  "testStreamExecutePanics early late =
     (case testStreamExecutePanics_early early of
        [] \<Rightarrow> testStreamExecutePanics_late late
      | e # es \<Rightarrow> e # es)"

definition testExecuteBatch :: "QueryResultList \<times> error option \<Rightarrow> string list" where
  "testExecuteBatch res =
     (case res of (qrl, err) \<Rightarrow>
        if err \<noteq> None then [''ExecuteBatch failed'']
        else if qrl \<noteq> executeBatchQueryResultList then [''Unexpected result from Execute'']
        else [])"

text \<open>
  The normal form of a chunk has nil for every slice of length 0, as the tests write it
  before they compare. Two streams with the same normal form differ at most in a nil
  slice against an empty one, chunk by chunk.
\<close>

definition nil_if_empty :: "'a list option \<Rightarrow> 'a list option" where
  "nil_if_empty xs = (if slice_len xs = 0 then None else xs)"

definition nil_normal :: "QueryResult \<Rightarrow> QueryResult" where
  "nil_normal qr = qr\<lparr>Fields := nil_if_empty (Fields qr), Rows := nil_if_empty (Rows qr)\<rparr>"

fun normal_event :: "event \<Rightarrow> event" where
  "normal_event (Chunk qr) = Chunk (nil_normal qr)"
| "normal_event Closed = Closed"

section \<open>What the streaming method sends\<close>




lemma StreamExecute_delivered:
  "fst (snd (StreamExecute chans f query (wire_send fail) [])) =
     (if panics f \<and> streamExecutePanicsEarly f then []
      else (if fail streamExecuteQueryResult1 = None then [streamExecuteQueryResult1] else [])
           @ (if panics f \<or> hasError f \<or> fail streamExecuteQueryResult2 \<noteq> None then []
              else [streamExecuteQueryResult2]))"
  by (cases "fail streamExecuteQueryResult1"; cases "fail streamExecuteQueryResult2")
    (simp_all add: StreamExecute_def wire_send_def Let_def split_def)

lemma StreamExecute_outcome:
  "snd (snd (StreamExecute chans f query sendReply s)) =
     (if panics f \<and> streamExecutePanicsEarly f then Some (Panic ''test-triggered panic early'')
      else if panics f then
        (if panicWait chans then Some (Panic ''test-triggered panic late'') else None)
      else if hasError f then
        (if errorWait chans then Some (Return (Some testTabletError)) else None)
      else Some (Return None))"
  by (simp add: StreamExecute_def Let_def split_def)

lemma StreamExecute_returns:
  "(snd (snd (StreamExecute chans f query sendReply s)) = None) = waits_forever chans f"
  by (simp add: StreamExecute_outcome waits_forever_def)



section \<open>Begin and the transaction id of its session\<close>

lemma conn_Begin_log:
  "t_errors (fst (conn_Begin conn f)) = t_errors (fst (Begin f
      \<lparr>Session.SessionId = sessionId conn, Session.TransactionId = 0\<rparr>
      \<lparr>TransactionInfo.TransactionId = 0\<rparr>))"
  and conn_Begin2_log:
  "t_errors (fst (conn_Begin2 conn f)) = t_errors (fst (Begin f
      \<lparr>Session.SessionId = sessionId conn, Session.TransactionId = 0\<rparr>
      \<lparr>TransactionInfo.TransactionId = 0\<rparr>))"
  by (simp_all add: conn_Begin_def conn_Begin2_def rpc_Begin_def rpc_Begin2_def split_def)

text \<open>
  Claim C8, as stated, fails: a \<^verbatim>\<open>Begin\<close> whose session carries the transaction id
  9990 is no error for the caller. The call returns a nil error and hands out a
  transaction id.
\<close>

theorem Begin_nonzero_transaction_counterexample:
  "Session.TransactionId \<lparr>Session.SessionId = 5678, Session.TransactionId = 9990\<rparr> \<noteq> 0
   \<and> snd (Begin CreateFakeServer
             \<lparr>Session.SessionId = 5678, Session.TransactionId = 9990\<rparr>
             \<lparr>TransactionInfo.TransactionId = 0\<rparr>)
       = (\<lparr>TransactionInfo.TransactionId = 9990\<rparr>, Return None)"
  by (simp add: Begin_def CreateFakeServer_def beginTransactionID_def Let_def)

text \<open>
  Claim C8, amended. Every \<^verbatim>\<open>Begin\<close> and \<^verbatim>\<open>Begin2\<close> request issued over a connection
  carries the transaction id 0 in its session: the service, which checks it, records
  nothing for such a request. A \<^verbatim>\<open>Begin\<close> call supplying a nonzero transaction id is
  not rejected: the service records the test failure \<^verbatim>\<open>Begin: invalid TransactionId\<close>
  through its test handle, and the call still returns no error and a transaction id.
  (The service is set neither to fail nor to panic, so that the call reaches the
  checks.)
\<close>

theorem Begin_transaction_id_zero:
  assumes "\<not> hasError f" and "\<not> panics f"
  shows "snd (Begin f session txInfo)
           = (txInfo\<lparr>TransactionInfo.TransactionId := beginTransactionID\<rparr>, Return None)
         \<and> (t_errors (fst (Begin f session txInfo)) = t_errors f
            \<longleftrightarrow> Session.SessionId session = testSessionID \<and> Session.TransactionId session = 0)
         \<and> (Session.TransactionId session \<noteq> 0
            \<longrightarrow> last (t_errors (fst (Begin f session txInfo))) = ''Begin: invalid TransactionId'')
         \<and> (sessionId conn = testSessionID
            \<longrightarrow> t_errors (fst (conn_Begin conn f)) = t_errors f
                \<and> t_errors (fst (conn_Begin2 conn f)) = t_errors f)"
  using assms by (simp add: conn_Begin_log conn_Begin2_log Begin_def t_Errorf_def Let_def)

theorem Begin_transaction_id_zero_witness:
  "\<not> hasError CreateFakeServer \<and> \<not> panics CreateFakeServer
   \<and> Session.TransactionId \<lparr>Session.SessionId = 5678, Session.TransactionId = 9990\<rparr> \<noteq> 0
   \<and> Begin CreateFakeServer
        \<lparr>Session.SessionId = 5678, Session.TransactionId = 9990\<rparr>
        \<lparr>TransactionInfo.TransactionId = 0\<rparr>
      = (CreateFakeServer\<lparr>t_errors := [''Begin: invalid TransactionId'']\<rparr>,
         \<lparr>TransactionInfo.TransactionId = 9990\<rparr>, Return None)
   \<and> sessionId \<lparr>sessionId = 5678, RPCErrorOnlyInReply = False\<rparr> = testSessionID
   \<and> t_errors (fst (conn_Begin \<lparr>sessionId = 5678, RPCErrorOnlyInReply = False\<rparr>
                      CreateFakeServer)) = []"
proof -
  have h1: "\<not> hasError CreateFakeServer" and h2: "\<not> panics CreateFakeServer"
    by (simp_all add: CreateFakeServer_def)
  show ?thesis
    using h1 h2 Begin_transaction_id_zero [OF h1 h2,
        of "\<lparr>Session.SessionId = 5678, Session.TransactionId = 9990\<rparr>"
           "\<lparr>TransactionInfo.TransactionId = 0\<rparr>"
           "\<lparr>sessionId = 5678, RPCErrorOnlyInReply = False\<rparr>"]
    by (simp add: Begin_def CreateFakeServer_def t_Errorf_def testSessionID_def
        beginTransactionID_def conn_Begin_log Let_def)
qed

section \<open>SplitQuery and its split count\<close>

text \<open>
  Claim C9, as stated, fails: with the split count 0 the fresh service returns the
  splits and no error.
\<close>

theorem SplitQuery_zero_count_counterexample:
  "sint (SplitCount \<lparr>SplitQueryRequest.Query = splitQueryBoundQuery, SplitCount = 0\<rparr>) \<le> 0
   \<and> snd (SplitQuery CreateFakeServer
             \<lparr>SplitQueryRequest.Query = splitQueryBoundQuery, SplitCount = 0\<rparr>
             \<lparr>SplitQueryResult.Queries = []\<rparr>)
       = (\<lparr>SplitQueryResult.Queries = splitQueryQuerySplitList\<rparr>, Return None)"
  by (simp add: SplitQuery_def CreateFakeServer_def Let_def)

text \<open>
  Claim C9, amended. \<^verbatim>\<open>SplitQuery\<close> does not reject a split count: whenever the
  service is set neither to fail nor to panic, the call returns no error and the list
  of query splits, for every split count, positive or not. The service records a
  failure through its test handle exactly when the query or the split count is not the
  expected one (372).
\<close>

theorem SplitQuery_returns_splits:
  assumes "\<not> hasError f" and "\<not> panics f"
  shows "snd (SplitQuery f req reply)
           = (reply\<lparr>SplitQueryResult.Queries := splitQueryQuerySplitList\<rparr>, Return None)
         \<and> (t_errors (fst (SplitQuery f req reply)) = t_errors f
            \<longleftrightarrow> BoundQuery_DeepEqual (SplitQueryRequest.Query req) splitQueryBoundQuery
                \<and> SplitCount req = splitQuerySplitCount)"
  using assms by (simp add: SplitQuery_def t_Errorf_def Let_def)

theorem SplitQuery_returns_splits_witness:
  "\<not> hasError CreateFakeServer \<and> \<not> panics CreateFakeServer
   \<and> snd (SplitQuery CreateFakeServer
             \<lparr>SplitQueryRequest.Query = splitQueryBoundQuery, SplitCount = - 1\<rparr>
             \<lparr>SplitQueryResult.Queries = []\<rparr>)
       = (\<lparr>SplitQueryResult.Queries = splitQueryQuerySplitList\<rparr>, Return None)"
proof -
  have h1: "\<not> hasError CreateFakeServer" and h2: "\<not> panics CreateFakeServer"
    by (simp_all add: CreateFakeServer_def)
  show ?thesis
    using h1 h2 SplitQuery_returns_splits [OF h1 h2,
        of "\<lparr>SplitQueryRequest.Query = splitQueryBoundQuery, SplitCount = - 1\<rparr>"
           "\<lparr>SplitQueryResult.Queries = []\<rparr>"]
    by simp
qed

section \<open>ExecuteBatch\<close>

lemma executeBatchQueries_accepted:
  "Queries_DeepEqual executeBatchQueries executeBatchQueries"
  by (simp add: Queries_DeepEqual_def BoundQuery_DeepEqual_def executeBatchQueries_def)

lemma executeBatchQueries_order:
  "\<not> Queries_DeepEqual (rev executeBatchQueries) executeBatchQueries"
  by (simp add: Queries_DeepEqual_def BoundQuery_DeepEqual_def executeBatchQueries_def)

text \<open>
  Claim C7, as stated, fails: the service returns no error and its two results for
  the empty batch, which has no query for them to correspond to, and the same two
  results in the same order for the expected batch reversed.
\<close>

theorem ExecuteBatch_any_batch_counterexample:
  "snd (ExecuteBatch CreateFakeServer
          \<lparr>QueryList.Queries = [], QueryList.SessionId = 5678,
           QueryList.TransactionId = 678\<rparr> \<lparr>List = []\<rparr>)
     = (executeBatchQueryResultList, Return None)
   \<and> length (List executeBatchQueryResultList) = 2
   \<and> snd (ExecuteBatch CreateFakeServer
          \<lparr>QueryList.Queries = rev executeBatchQueries, QueryList.SessionId = 5678,
           QueryList.TransactionId = 678\<rparr> \<lparr>List = []\<rparr>)
     = (executeBatchQueryResultList, Return None)
   \<and> rev executeBatchQueries \<noteq> executeBatchQueries"
  by (simp add: ExecuteBatch_def CreateFakeServer_def executeBatchQueryResultList_def
      executeBatchQueries_def Let_def)

text \<open>
  Claim C7, amended. \<^verbatim>\<open>ExecuteBatch\<close> executes no query: whenever the service is set
  neither to fail nor to panic, the call returns no error and the same fixed list of
  two results, whatever the batch. The service records a test failure unless the
  queries submitted are, position by position, the two expected ones, and the one
  session id and the one transaction id of the request the expected ones. For a batch
  that matches the expected queries position by position, the list returned has one
  result for each query submitted, in the order of the queries.
\<close>

theorem ExecuteBatch_fixed_results:
  assumes "\<not> hasError f" and "\<not> panics f"
  shows "snd (ExecuteBatch f queryList reply) = (executeBatchQueryResultList, Return None)
         \<and> (t_errors (fst (ExecuteBatch f queryList reply)) = t_errors f
            \<longleftrightarrow> list_all2 BoundQuery_DeepEqual (QueryList.Queries queryList) executeBatchQueries
                \<and> QueryList.SessionId queryList = testSessionID
                \<and> QueryList.TransactionId queryList = executeBatchTransactionID)
         \<and> (list_all2 BoundQuery_DeepEqual (QueryList.Queries queryList) executeBatchQueries
            \<longrightarrow> length (List executeBatchQueryResultList) = length (QueryList.Queries queryList))"
proof -
  have len: "length (List executeBatchQueryResultList) = length executeBatchQueries"
    by (simp add: executeBatchQueryResultList_def executeBatchQueries_def)
  have l: "list_all2 BoundQuery_DeepEqual (QueryList.Queries queryList) executeBatchQueries
      \<Longrightarrow> length (List executeBatchQueryResultList) = length (QueryList.Queries queryList)"
    using len by (simp add: list_all2_lengthD)
  from assms have "snd (ExecuteBatch f queryList reply) = (executeBatchQueryResultList, Return None)"
    and "t_errors (fst (ExecuteBatch f queryList reply)) = t_errors f
            \<longleftrightarrow> list_all2 BoundQuery_DeepEqual (QueryList.Queries queryList) executeBatchQueries
                \<and> QueryList.SessionId queryList = testSessionID
                \<and> QueryList.TransactionId queryList = executeBatchTransactionID"
    by (simp_all add: ExecuteBatch_def t_Errorf_def Queries_DeepEqual_def Let_def)
  with l show ?thesis by blast
qed

theorem ExecuteBatch_fixed_results_witness:
  "\<not> hasError CreateFakeServer \<and> \<not> panics CreateFakeServer
   \<and> ExecuteBatch CreateFakeServer
       \<lparr>QueryList.Queries = executeBatchQueries, QueryList.SessionId = testSessionID,
        QueryList.TransactionId = executeBatchTransactionID\<rparr> \<lparr>List = []\<rparr>
     = (CreateFakeServer, executeBatchQueryResultList, Return None)
   \<and> list_all2 BoundQuery_DeepEqual executeBatchQueries executeBatchQueries
   \<and> length (List executeBatchQueryResultList) = length executeBatchQueries"
proof -
  have h1: "\<not> hasError CreateFakeServer" and h2: "\<not> panics CreateFakeServer"
    by (simp_all add: CreateFakeServer_def)
  have a: "list_all2 BoundQuery_DeepEqual executeBatchQueries executeBatchQueries"
    using executeBatchQueries_accepted by (simp add: Queries_DeepEqual_def)
  show ?thesis
    using h1 h2 a ExecuteBatch_fixed_results [OF h1 h2,
        of "\<lparr>QueryList.Queries = executeBatchQueries, QueryList.SessionId = testSessionID,
             QueryList.TransactionId = executeBatchTransactionID\<rparr>" "\<lparr>List = []\<rparr>"]
    by (simp add: ExecuteBatch_def CreateFakeServer_def executeBatchQueries_accepted)
qed

section \<open>The guard and the answers of the entry points\<close>

lemma guarded_Return [simp]: "guarded (Return e) = e"
  by (simp add: guarded_def HandlePanic_def)

lemma guarded_Panic [simp]: "guarded (Panic x) = Some (''caught test panic: '' @ x)"
  by (simp add: guarded_def HandlePanic_def)

lemma flags_t_Errorf [simp]: "flags (t_Errorf f msg) = flags f"
  by (simp add: flags_def t_Errorf_def)

lemma hasError_t_Errorf [simp]: "hasError (t_Errorf f msg) = hasError f"
  and panics_t_Errorf [simp]: "panics (t_Errorf f msg) = panics f"
  and early_t_Errorf [simp]: "streamExecutePanicsEarly (t_Errorf f msg) = streamExecutePanicsEarly f"
  by (simp_all add: t_Errorf_def)

lemma surfaced_deliver [simp]: "surfaced (deliver b e x) = e"
  by (cases e) (simp_all add: surfaced_def deliver_def)

lemma payload_deliver [simp]: "payload (deliver b e x) = x"
  by (simp add: deliver_def)


lemma testTabletError_text: "testTabletError = ''error: generic error''"
  by (simp add: testTabletError_def TabletError_Error_def NewTabletError_def)

lemma faults_panics: "faults chans f c \<Longrightarrow> panics f"
  by (cases c) simp_all

lemma not_faults: "\<not> faults chans f c \<Longrightarrow> \<not> blocks chans f c \<Longrightarrow> \<not> hasError f \<Longrightarrow> \<not> panics f"
  by (cases c) (auto simp: waits_forever_def)


lemma rpc_StreamExecute_ended:
  "snd (snd (rpc_StreamExecute chans f q)) =
     (if panics f \<and> streamExecutePanicsEarly f
      then Some (Some ''caught test panic: test-triggered panic early'')
      else if panics f then
        (if panicWait chans then Some (Some ''caught test panic: test-triggered panic late'')
         else None)
      else if hasError f then (if errorWait chans then Some (Some testTabletError) else None)
      else Some None)"
  by (simp add: rpc_StreamExecute_def split_def StreamExecute_outcome)

lemma rpc_StreamExecute_delivered:
  "fst (snd (rpc_StreamExecute chans f q)) =
     fst (snd (StreamExecute chans f q (wire_send never_fails) []))"
  by (simp add: rpc_StreamExecute_def split_def)

lemma answer_stream_error:
  "map_option (\<lambda>r. snd (snd r)) (answer_stream fr) = snd (snd fr)"
  by (cases fr) (simp add: answer_stream_def split: option.splits)

lemma answer_stream_state:
  "map_option fst (answer_stream fr) = map_option (\<lambda>e. fst fr) (snd (snd fr))"
  by (cases fr) (simp add: answer_stream_def split: option.splits)




text \<open>What each entry point answers, by the flags and the wait channels alone.\<close>

lemma serve_error_all:
  "map_option (\<lambda>r. snd (snd r)) (serve chans flag f c) =
     (if blocks chans f c then None
      else Some
       (if faults chans f c then
          Some (''caught test panic: '' @
            (case c of
               StreamExecute_call q \<Rightarrow>
                 if streamExecutePanicsEarly f then ''test-triggered panic early''
                 else ''test-triggered panic late''
             | StreamExecute2_call q \<Rightarrow>
                 if streamExecutePanicsEarly f then ''test-triggered panic early''
                 else ''test-triggered panic late''
             | _ \<Rightarrow> ''test-triggered panic''))
        else if hasError f then Some testTabletError
        else None))"
  by (cases c)
    (simp_all add: answer_def answer_stream_error rpc_Begin_def rpc_Begin2_def rpc_Commit_def
      rpc_Commit2_def rpc_Rollback_def rpc_Rollback2_def rpc_Execute_def rpc_ExecuteBatch_def
      rpc_SplitQuery_def rpc_StreamExecute2_def rpc_StreamExecute_ended waits_forever_def
      Begin_def Commit_def Rollback_def Execute_def ExecuteBatch_def SplitQuery_def
      Let_def split_def)

text \<open>A call never returns exactly when \<open>blocks\<close> says so.\<close>

lemma serve_None: "(serve chans flag f c = None) = blocks chans f c"
  using serve_error_all [of chans flag f c]
  by (cases "serve chans flag f c") (simp_all split: if_splits)

lemma serve_error:
  assumes "serve chans flag f c = Some r"
  shows "snd (snd r) =
     (if faults chans f c then
        Some (''caught test panic: '' @
          (case c of
             StreamExecute_call q \<Rightarrow>
               if streamExecutePanicsEarly f then ''test-triggered panic early''
               else ''test-triggered panic late''
           | StreamExecute2_call q \<Rightarrow>
               if streamExecutePanicsEarly f then ''test-triggered panic early''
               else ''test-triggered panic late''
           | _ \<Rightarrow> ''test-triggered panic''))
      else if hasError f then Some testTabletError
      else None)"
  using serve_error_all [of chans flag f c] assms
  by (simp split: if_splits)




lemma serve_fault_text:
  assumes "faults chans f c" and "serve chans flag f c = Some r"
  shows "\<exists>x. snd (snd r) = Some (''caught test panic: '' @ x)
             \<and> \<not> strings_Contains (''caught test panic: '' @ x) ''error: ''"
  using assms(1) serve_error [OF assms(2)] by (cases c) simp_all

text \<open>
  The bodies that panic are those \<open>faults\<close> names: a method other than the streaming
  one panics exactly when \<^verbatim>\<open>panics\<close> is set and \<^verbatim>\<open>hasError\<close> is not; the streaming one
  exactly when \<^verbatim>\<open>panics\<close> is set and either \<^verbatim>\<open>streamExecutePanicsEarly\<close> is set or the
  client closes \<^verbatim>\<open>panicWait\<close>.
\<close>

lemma body_panics:
  "(\<exists>x. snd (snd (Begin f session txInfo)) = Panic x) = (panics f \<and> \<not> hasError f)"
  "(\<exists>x. snd (Commit f session) = Panic x) = (panics f \<and> \<not> hasError f)"
  "(\<exists>x. snd (Rollback f session) = Panic x) = (panics f \<and> \<not> hasError f)"
  "(\<exists>x. snd (snd (Execute f query reply)) = Panic x) = (panics f \<and> \<not> hasError f)"
  "(\<exists>x. snd (snd (ExecuteBatch f queryList replyList)) = Panic x) = (panics f \<and> \<not> hasError f)"
  "(\<exists>x. snd (snd (SplitQuery f req splits)) = Panic x) = (panics f \<and> \<not> hasError f)"
  "(\<exists>x. snd (snd (StreamExecute chans f query sendReply s)) = Some (Panic x))
     = (panics f \<and> (streamExecutePanicsEarly f \<or> panicWait chans))"
  by (auto simp: Begin_def Commit_def Rollback_def Execute_def ExecuteBatch_def
      SplitQuery_def StreamExecute_outcome Let_def)


section \<open>The text of an error\<close>

text \<open>
  Claim C6, as stated, fails for a caught fault: \<^verbatim>\<open>Begin\<close> panics with the value
  \<^verbatim>\<open>test-triggered panic\<close>, and \<^verbatim>\<open>HandlePanic\<close> turns it into an error whose text
  neither starts with nor holds \<^verbatim>\<open>error: \<close>.
\<close>

theorem caught_fault_text_counterexample:
  "snd (snd (Begin (CreateFakeServer\<lparr>panics := True\<rparr>)
               \<lparr>Session.SessionId = 5678, Session.TransactionId = 0\<rparr>
               \<lparr>TransactionInfo.TransactionId = 0\<rparr>)) = Panic ''test-triggered panic''
   \<and> HandlePanic (Some ''test-triggered panic'') None
       = Some ''caught test panic: test-triggered panic''
   \<and> \<not> prefix ''error: '' ''caught test panic: test-triggered panic''
   \<and> \<not> strings_Contains ''caught test panic: test-triggered panic'' ''error: ''"
  by (simp add: Begin_def CreateFakeServer_def HandlePanic_def)

text \<open>
  Claim C6, amended. For every call, an error that the service itself reports is
  surfaced with the text \<^verbatim>\<open>error: <message>\<close>, where \<^verbatim>\<open><message>\<close> is the failure
  description of the tablet error, and it holds the literal \<^verbatim>\<open>error: generic error\<close>
  that the tests match; a caught fault is surfaced as \<^verbatim>\<open>caught test panic: <fault>\<close>,
  without the text \<^verbatim>\<open>error: \<close>. A call returns no error exactly when the service is
  set neither to fail nor to panic.
\<close>

theorem surfaced_error_text:
  assumes "serve chans flag f c = Some (f', resp, err)"
  shows "(err = None \<longleftrightarrow> \<not> hasError f \<and> \<not> panics f)
         \<and> (\<forall>e. err = Some e \<longrightarrow>
               (if faults chans f c
                then prefix ''caught test panic: '' e \<and> \<not> strings_Contains e ''error: ''
                else e = ''error: '' @ Message (NewTabletError ErrFail ''generic error'')
                     \<and> strings_Contains e expectedErrMatch))"
proof (cases "faults chans f c")
  case True
  from serve_fault_text [OF True assms] obtain x
    where x: "err = Some (''caught test panic: '' @ x)"
      and n: "\<not> strings_Contains (''caught test panic: '' @ x) ''error: ''"
    by auto
  from True have "panics f" by (rule faults_panics)
  with True x n show ?thesis by auto
next
  case False
  from assms have nb: "\<not> blocks chans f c"
    using serve_None [of chans flag f c] by simp
  from False serve_error [OF assms]
  have e: "err = (if hasError f then Some testTabletError else None)"
    by simp
  have t: "testTabletError = ''error: '' @ Message (NewTabletError ErrFail ''generic error'')"
    by (simp add: testTabletError_def TabletError_Error_def)
  have m: "strings_Contains testTabletError expectedErrMatch"
    by (simp add: testTabletError_text expectedErrMatch_def)
  show ?thesis
  proof (cases "hasError f")
    case True
    with False e t m show ?thesis by auto
  next
    case nerr: False
    with False nb have "\<not> panics f" by (simp add: not_faults)
    with False e nerr show ?thesis by simp
  qed
qed

theorem surfaced_error_text_witness:
  "serve no_close True (CreateFakeServer\<lparr>hasError := True\<rparr>)
        (Begin_call \<lparr>Session.SessionId = 5678, Session.TransactionId = 0\<rparr>)
      = Some (CreateFakeServer\<lparr>hasError := True\<rparr>,
              TransactionInfo_response \<lparr>TransactionInfo.TransactionId = 0\<rparr>,
              Some ''error: generic error'')
   \<and> \<not> faults no_close (CreateFakeServer\<lparr>hasError := True\<rparr>)
        (Begin_call \<lparr>Session.SessionId = 5678, Session.TransactionId = 0\<rparr>)
   \<and> strings_Contains ''error: generic error'' expectedErrMatch"
proof -
  have h: "serve no_close True (CreateFakeServer\<lparr>hasError := True\<rparr>)
        (Begin_call \<lparr>Session.SessionId = 5678, Session.TransactionId = 0\<rparr>)
      = Some (CreateFakeServer\<lparr>hasError := True\<rparr>,
              TransactionInfo_response \<lparr>TransactionInfo.TransactionId = 0\<rparr>,
              Some ''error: generic error'')"
    by (simp add: answer_def rpc_Begin_def Begin_def CreateFakeServer_def testTabletError_text)
  show ?thesis
    using h surfaced_error_text [OF h]
    by (simp add: CreateFakeServer_def)
qed

section \<open>The two forms of a transaction-control method\<close>

lemma call_failure_deliver: "call_failure (deliver b e x) = (if b then None else e)"
  by (simp add: deliver_def)

lemma embedded_error_deliver: "embedded_error (deliver b e x) = (if b then e else None)"
  by (simp add: deliver_def)

text \<open>
  Claim C5. From the same state of the service, \<^verbatim>\<open>Begin\<close> and \<^verbatim>\<open>Begin2\<close> give the
  caller the same transaction id and the same error, and so do \<^verbatim>\<open>Commit\<close> and
  \<^verbatim>\<open>Commit2\<close>, \<^verbatim>\<open>Rollback\<close> and \<^verbatim>\<open>Rollback2\<close>, whatever the server-wide flag; the
  service is left in the same state. The two forms differ in the channel alone: with
  the flag set the first form carries the error inside the reply and the second as
  the failure of the call.
\<close>

theorem transaction_control_parity:
  "conn_Begin conn f = conn_Begin2 conn f
   \<and> conn_Commit conn f transactionID = conn_Commit2 conn f transactionID
   \<and> conn_Rollback conn f transactionID = conn_Rollback2 conn f transactionID
   \<and> fst (rpc_Begin flag f session) = fst (rpc_Begin2 f session)
   \<and> payload (snd (rpc_Begin flag f session)) = payload (snd (rpc_Begin2 f session))
   \<and> surfaced (snd (rpc_Begin flag f session)) = surfaced (snd (rpc_Begin2 f session))
   \<and> call_failure (snd (rpc_Begin flag f session))
       = (if flag then None else call_failure (snd (rpc_Begin2 f session)))
   \<and> embedded_error (snd (rpc_Begin flag f session))
       = (if flag then call_failure (snd (rpc_Begin2 f session)) else None)
   \<and> fst (rpc_Commit flag f session) = fst (rpc_Commit2 f session)
   \<and> surfaced (snd (rpc_Commit flag f session)) = surfaced (snd (rpc_Commit2 f session))
   \<and> call_failure (snd (rpc_Commit flag f session))
       = (if flag then None else call_failure (snd (rpc_Commit2 f session)))
   \<and> embedded_error (snd (rpc_Commit flag f session))
       = (if flag then call_failure (snd (rpc_Commit2 f session)) else None)
   \<and> fst (rpc_Rollback flag f session) = fst (rpc_Rollback2 f session)
   \<and> surfaced (snd (rpc_Rollback flag f session)) = surfaced (snd (rpc_Rollback2 f session))
   \<and> call_failure (snd (rpc_Rollback flag f session))
       = (if flag then None else call_failure (snd (rpc_Rollback2 f session)))
   \<and> embedded_error (snd (rpc_Rollback flag f session))
       = (if flag then call_failure (snd (rpc_Rollback2 f session)) else None)"
  by (simp add: conn_Begin_def conn_Begin2_def conn_Commit_def conn_Commit2_def
      conn_Rollback_def conn_Rollback2_def rpc_Begin_def rpc_Begin2_def rpc_Commit_def
      rpc_Commit2_def rpc_Rollback_def rpc_Rollback2_def split_def
      call_failure_deliver embedded_error_deliver)

theorem transaction_control_parity_witness:
  "conn_Begin \<lparr>sessionId = 5678, RPCErrorOnlyInReply = True\<rparr> CreateFakeServer
     = (CreateFakeServer, 9990, None)
   \<and> conn_Begin2 \<lparr>sessionId = 5678, RPCErrorOnlyInReply = True\<rparr> CreateFakeServer
     = (CreateFakeServer, 9990, None)
   \<and> conn_Commit \<lparr>sessionId = 5678, RPCErrorOnlyInReply = True\<rparr>
        (CreateFakeServer\<lparr>hasError := True\<rparr>) 999044
     = (CreateFakeServer\<lparr>hasError := True\<rparr>, Some ''error: generic error'')
   \<and> conn_Commit2 \<lparr>sessionId = 5678, RPCErrorOnlyInReply = True\<rparr>
        (CreateFakeServer\<lparr>hasError := True\<rparr>) 999044
     = (CreateFakeServer\<lparr>hasError := True\<rparr>, Some ''error: generic error'')
   \<and> call_failure (snd (rpc_Commit True (CreateFakeServer\<lparr>hasError := True\<rparr>)
         \<lparr>Session.SessionId = 5678, Session.TransactionId = 999044\<rparr>)) = None
   \<and> call_failure (snd (rpc_Commit2 (CreateFakeServer\<lparr>hasError := True\<rparr>)
         \<lparr>Session.SessionId = 5678, Session.TransactionId = 999044\<rparr>)) = Some ''error: generic error''"
  using transaction_control_parity
    [of "\<lparr>sessionId = 5678, RPCErrorOnlyInReply = True\<rparr>" CreateFakeServer
        999044 True "\<lparr>Session.SessionId = 5678, Session.TransactionId = 999044\<rparr>"]
  by (simp add: conn_Begin_def conn_Begin2_def conn_Commit_def conn_Commit2_def
      rpc_Begin_def rpc_Begin2_def rpc_Commit_def rpc_Commit2_def Begin_def Commit_def
      CreateFakeServer_def testSessionID_def beginTransactionID_def commitTransactionID_def
      testTabletError_text deliver_def surfaced_def Let_def)

section \<open>The stream and its terminal error\<close>

lemma StreamExecute_delivered_all:
  "fst (snd (StreamExecute chans f query (wire_send never_fails) [])) =
     (if panics f \<and> streamExecutePanicsEarly f then []
      else if panics f \<or> hasError f then [streamExecuteQueryResult1]
      else [streamExecuteQueryResult1, streamExecuteQueryResult2])"
  by (simp add: StreamExecute_delivered never_fails_def)

lemma conn_StreamExecute_result:
  "snd (conn_StreamExecute conn chans f query bindVars transactionID) =
     (if panics f \<and> streamExecutePanicsEarly f then
        \<lparr>stream = [], errFunc = None,
         call_error = Some ''caught test panic: test-triggered panic early''\<rparr>
      else if panics f then
        (if panicWait chans
         then \<lparr>stream = [Chunk streamExecuteQueryResult1, Closed],
               errFunc = Some ''caught test panic: test-triggered panic late'',
               call_error = None\<rparr>
         else \<lparr>stream = [Chunk streamExecuteQueryResult1], errFunc = None,
               call_error = None\<rparr>)
      else if hasError f then
        (if errorWait chans
         then \<lparr>stream = [Chunk streamExecuteQueryResult1, Closed],
               errFunc = Some testTabletError, call_error = None\<rparr>
         else \<lparr>stream = [Chunk streamExecuteQueryResult1], errFunc = None,
               call_error = None\<rparr>)
      else
        \<lparr>stream = [Chunk streamExecuteQueryResult1, Chunk streamExecuteQueryResult2, Closed],
         errFunc = None, call_error = None\<rparr>)"
  by (simp add: conn_StreamExecute_def split_def rpc_StreamExecute_ended
      rpc_StreamExecute_delivered StreamExecute_delivered_all)

lemma result1_rows: "slice_len (Rows streamExecuteQueryResult1) = 0"
  by (simp add: streamExecuteQueryResult1_def)

lemma result1_nil_rows: "streamExecuteQueryResult1\<lparr>Rows := None\<rparr> = streamExecuteQueryResult1"
  by (simp add: streamExecuteQueryResult1_def)

lemma result1_not_result2: "streamExecuteQueryResult1 \<noteq> streamExecuteQueryResult2"
  by (simp add: streamExecuteQueryResult1_def streamExecuteQueryResult2_def)

text \<open>
  Claim C3, as stated, fails, in two ways. With \<^verbatim>\<open>hasError\<close> set and a client that
  does not close \<^verbatim>\<open>errorWait\<close>, the service sends the first chunk and then never
  returns, so that the stream is never closed. And with a transport whose send of the
  rows fails, the service still returns a nil error, which is what the terminal-error
  accessor reports, although the chunk of rows was not delivered.
\<close>

theorem stream_never_closed_counterexample:
  "StreamExecute \<lparr>panicWait = False, errorWait = False\<rparr> (CreateFakeServer\<lparr>hasError := True\<rparr>)
       \<lparr>Query.Sql = streamExecuteQuery, Query.BindVariables = streamExecuteBindVars,
        Query.SessionId = testSessionID, Query.TransactionId = streamExecuteTransactionID\<rparr>
       (wire_send never_fails) []
     = (CreateFakeServer\<lparr>hasError := True\<rparr>, [streamExecuteQueryResult1], None)
   \<and> count_list
        (stream (snd (conn_StreamExecute \<lparr>sessionId = 5678, RPCErrorOnlyInReply = False\<rparr>
             \<lparr>panicWait = False, errorWait = False\<rparr> (CreateFakeServer\<lparr>hasError := True\<rparr>)
             streamExecuteQuery streamExecuteBindVars streamExecuteTransactionID)))
        Closed = 0
   \<and> StreamExecute \<lparr>panicWait = False, errorWait = False\<rparr> CreateFakeServer
       \<lparr>Query.Sql = streamExecuteQuery, Query.BindVariables = streamExecuteBindVars,
        Query.SessionId = testSessionID, Query.TransactionId = streamExecuteTransactionID\<rparr>
       (wire_send (fails_on streamExecuteQueryResult2)) []
     = (t_Errorf CreateFakeServer ''sendReply2 failed'', [streamExecuteQueryResult1],
        Some (Return None))"
  by (simp add: conn_StreamExecute_result StreamExecute_def wire_send_def never_fails_def
      fails_on_def result1_not_result2 CreateFakeServer_def streamExecuteBindVars_def Let_def)

text \<open>
  Claim C3, amended. Let a \<^verbatim>\<open>StreamExecute\<close> call return a stream (the call itself
  does not fail), let the client close the wait channel on which the service waits
  after the first chunk, if it waits on one, and let no send of the transport fail.
  Then the stream is closed exactly once, as its last event. Once it is closed,
  \<^verbatim>\<open>errFunc\<close> returns no error exactly when both chunks, the fields and the rows, have
  been delivered. When the execution fails after the first chunk, the stream closes
  right after that chunk and \<^verbatim>\<open>errFunc\<close> returns the failure, whose text holds the
  message the tests match.
\<close>

theorem stream_closed_once:
  assumes "conn_StreamExecute conn chans f query bindVars transactionID = (f', res)"
    and "call_error res = None"
    and "\<not> waits_forever chans f"
  shows "count_list (stream res) Closed = 1
         \<and> last (stream res) = Closed
         \<and> (errFunc res = None
              \<longleftrightarrow> chunks_of (stream res) = [streamExecuteQueryResult1, streamExecuteQueryResult2])
         \<and> (hasError f \<and> \<not> panics f
              \<longrightarrow> stream res = [Chunk streamExecuteQueryResult1, Closed]
                  \<and> errFunc res = Some testTabletError
                  \<and> strings_Contains testTabletError expectedErrMatch)"
proof -
  from assms(1) have res: "res = snd (conn_StreamExecute conn chans f query bindVars transactionID)"
    by simp
  have m: "strings_Contains testTabletError expectedErrMatch"
    by (simp add: testTabletError_text expectedErrMatch_def)
  from assms(2,3) m show ?thesis
    unfolding res conn_StreamExecute_result waits_forever_def
    by (simp split: if_splits)
qed

theorem stream_closed_once_witness:
  "conn_StreamExecute \<lparr>sessionId = 5678, RPCErrorOnlyInReply = False\<rparr>
       \<lparr>panicWait = False, errorWait = True\<rparr> (CreateFakeServer\<lparr>hasError := True\<rparr>)
       streamExecuteQuery streamExecuteBindVars streamExecuteTransactionID
     = (CreateFakeServer\<lparr>hasError := True\<rparr>,
        \<lparr>stream = [Chunk streamExecuteQueryResult1, Closed],
         errFunc = Some ''error: generic error'', call_error = None\<rparr>)
   \<and> call_error \<lparr>stream = [Chunk streamExecuteQueryResult1, Closed],
         errFunc = Some ''error: generic error'', call_error = None\<rparr> = None
   \<and> \<not> waits_forever \<lparr>panicWait = False, errorWait = True\<rparr> (CreateFakeServer\<lparr>hasError := True\<rparr>)
   \<and> count_list [Chunk streamExecuteQueryResult1, Closed] Closed = 1
   \<and> chunks_of [Chunk streamExecuteQueryResult1, Closed] = [streamExecuteQueryResult1]"
proof -
  have h: "conn_StreamExecute \<lparr>sessionId = 5678, RPCErrorOnlyInReply = False\<rparr>
       \<lparr>panicWait = False, errorWait = True\<rparr> (CreateFakeServer\<lparr>hasError := True\<rparr>)
       streamExecuteQuery streamExecuteBindVars streamExecuteTransactionID
     = (CreateFakeServer\<lparr>hasError := True\<rparr>,
        \<lparr>stream = [Chunk streamExecuteQueryResult1, Closed],
         errFunc = Some ''error: generic error'', call_error = None\<rparr>)"
    by (simp add: conn_StreamExecute_def rpc_StreamExecute_def StreamExecute_def
        wire_send_def never_fails_def CreateFakeServer_def testSessionID_def
        streamExecuteBindVars_def testTabletError_text Let_def)
  have c: "call_error \<lparr>stream = [Chunk streamExecuteQueryResult1, Closed],
         errFunc = Some ''error: generic error'', call_error = None\<rparr> = None"
    by simp
  have w: "\<not> waits_forever \<lparr>panicWait = False, errorWait = True\<rparr>
              (CreateFakeServer\<lparr>hasError := True\<rparr>)"
    by (simp add: waits_forever_def CreateFakeServer_def)
  show ?thesis
    using h c w stream_closed_once [OF h c w] by simp
qed

text \<open>
  Claim C4. With \<^verbatim>\<open>panics\<close> set, a fault that comes before any chunk
  (\<^verbatim>\<open>streamExecutePanicsEarly\<close>) makes the call itself fail, with the caught fault as its
  error and no stream. A fault that comes after the first chunk (the client has closed
  \<^verbatim>\<open>panicWait\<close>) does not make the call fail: the chunk delivered stays the first
  event of the stream, the stream closes right after it, and \<^verbatim>\<open>errFunc\<close> returns the
  caught fault. In no case does the stream close with \<^verbatim>\<open>errFunc\<close> silent. Each part
  of \<^verbatim>\<open>testStreamExecutePanics\<close> passes on what its call returns.
\<close>

theorem stream_fault_reporting:
  assumes "panics f"
    and "conn_StreamExecute conn chans f query bindVars transactionID = (f', res)"
  shows "(streamExecutePanicsEarly f
            \<longrightarrow> call_error res = Some ''caught test panic: test-triggered panic early''
                \<and> stream res = [] \<and> errFunc res = None
                \<and> testStreamExecutePanics_early res = [])
         \<and> (\<not> streamExecutePanicsEarly f \<and> panicWait chans
            \<longrightarrow> call_error res = None
                \<and> stream res = [Chunk streamExecuteQueryResult1, Closed]
                \<and> errFunc res = Some ''caught test panic: test-triggered panic late''
                \<and> testStreamExecutePanics_late res = [])
         \<and> (Closed \<in> set (stream res) \<longrightarrow> errFunc res \<noteq> None)"
proof -
  from assms(2) have res: "res = snd (conn_StreamExecute conn chans f query bindVars transactionID)"
    by simp
  from assms(1) show ?thesis
    unfolding res conn_StreamExecute_result
    by (simp add: testStreamExecutePanics_early_def testStreamExecutePanics_late_def
        result1_rows result1_nil_rows)
qed

theorem stream_fault_reporting_witness:
  "panics (CreateFakeServer\<lparr>panics := True\<rparr>)
   \<and> conn_StreamExecute \<lparr>sessionId = 5678, RPCErrorOnlyInReply = False\<rparr>
       \<lparr>panicWait = True, errorWait = False\<rparr> (CreateFakeServer\<lparr>panics := True\<rparr>)
       streamExecuteQuery streamExecuteBindVars streamExecuteTransactionID
     = (CreateFakeServer\<lparr>panics := True\<rparr>,
        \<lparr>stream = [Chunk streamExecuteQueryResult1, Closed],
         errFunc = Some ''caught test panic: test-triggered panic late'', call_error = None\<rparr>)
   \<and> \<not> streamExecutePanicsEarly (CreateFakeServer\<lparr>panics := True\<rparr>)
   \<and> panicWait \<lparr>panicWait = True, errorWait = False\<rparr>
   \<and> testStreamExecutePanics_late
        \<lparr>stream = [Chunk streamExecuteQueryResult1, Closed],
         errFunc = Some ''caught test panic: test-triggered panic late'', call_error = None\<rparr>
       = []"
proof -
  have p: "panics (CreateFakeServer\<lparr>panics := True\<rparr>)"
    by simp
  have h: "conn_StreamExecute \<lparr>sessionId = 5678, RPCErrorOnlyInReply = False\<rparr>
       \<lparr>panicWait = True, errorWait = False\<rparr> (CreateFakeServer\<lparr>panics := True\<rparr>)
       streamExecuteQuery streamExecuteBindVars streamExecuteTransactionID
     = (CreateFakeServer\<lparr>panics := True\<rparr>,
        \<lparr>stream = [Chunk streamExecuteQueryResult1, Closed],
         errFunc = Some ''caught test panic: test-triggered panic late'', call_error = None\<rparr>)"
    by (simp add: conn_StreamExecute_def rpc_StreamExecute_def StreamExecute_def
        wire_send_def never_fails_def CreateFakeServer_def testSessionID_def
        streamExecuteBindVars_def Let_def)
  show ?thesis
    using p h stream_fault_reporting [OF p h]
    by (simp add: CreateFakeServer_def)
qed

section \<open>Nil and empty slices in a chunk\<close>

lemma receive_normal:
  "receive (map normal_event s) =
     (case receive s of
        (Got a, t) \<Rightarrow> (Got (nil_normal a), map normal_event t)
      | (NotOk, t) \<Rightarrow> (NotOk, map normal_event t)
      | (Blocks, t) \<Rightarrow> (Blocks, []))"
  by (cases s rule: receive.cases) simp_all

lemma result1_normal:
  "((if slice_len (Rows (nil_normal a)) = 0 then (nil_normal a)\<lparr>Rows := None\<rparr> else nil_normal a)
      = streamExecuteQueryResult1)
   = ((if slice_len (Rows a) = 0 then a\<lparr>Rows := None\<rparr> else a) = streamExecuteQueryResult1)"
  by (cases a) (auto simp: nil_normal_def nil_if_empty_def streamExecuteQueryResult1_def
      split: if_splits)

lemma result2_normal:
  "((if slice_len (Fields (nil_normal a)) = 0 then (nil_normal a)\<lparr>Fields := None\<rparr> else nil_normal a)
      = streamExecuteQueryResult2)
   = ((if slice_len (Fields a) = 0 then a\<lparr>Fields := None\<rparr> else a) = streamExecuteQueryResult2)"
  by (cases a) (auto simp: nil_normal_def nil_if_empty_def streamExecuteQueryResult2_def
      split: if_splits)

lemma testStreamExecute_normal:
  "testStreamExecute \<lparr>stream = map normal_event s, errFunc = e, call_error = c\<rparr>
   = testStreamExecute \<lparr>stream = s, errFunc = e, call_error = c\<rparr>"
proof -
  obtain r1 t1 where 1: "receive s = (r1, t1)" by (cases "receive s")
  obtain r2 t2 where 2: "receive t1 = (r2, t2)" by (cases "receive t1")
  obtain r3 t3 where 3: "receive t2 = (r3, t3)" by (cases "receive t2")
  show ?thesis
  proof (cases r1)
    case (Got a)
    show ?thesis
    proof (cases r2)
      case second: (Got b)
      from 1 2 3 Got second show ?thesis
        by (cases r3)
          (simp_all add: testStreamExecute_def receive_normal result1_normal result2_normal
            Let_def split del: if_split cong: if_cong option.case_cong)
    next
      case NotOk
      with 1 2 Got show ?thesis
        by (simp add: testStreamExecute_def receive_normal result1_normal Let_def split del: if_split cong: if_cong option.case_cong)
    next
      case Blocks
      with 1 2 Got show ?thesis
        by (simp add: testStreamExecute_def receive_normal result1_normal Let_def split del: if_split cong: if_cong option.case_cong)
    qed
  next
    case NotOk
    with 1 show ?thesis by (simp add: testStreamExecute_def receive_normal)
  next
    case Blocks
    with 1 show ?thesis by (simp add: testStreamExecute_def receive_normal)
  qed
qed

lemma testStreamExecuteError_normal:
  "testStreamExecuteError \<lparr>stream = map normal_event s, errFunc = e, call_error = c\<rparr>
   = testStreamExecuteError \<lparr>stream = s, errFunc = e, call_error = c\<rparr>"
proof -
  obtain r1 t1 where 1: "receive s = (r1, t1)" by (cases "receive s")
  obtain r2 t2 where 2: "receive t1 = (r2, t2)" by (cases "receive t1")
  show ?thesis
  proof (cases r1)
    case (Got a)
    with 1 2 show ?thesis
      by (cases r2)
        (simp_all add: testStreamExecuteError_def receive_normal result1_normal Let_def split del: if_split cong: if_cong option.case_cong)
  next
    case NotOk
    with 1 show ?thesis by (simp add: testStreamExecuteError_def receive_normal)
  next
    case Blocks
    with 1 show ?thesis by (simp add: testStreamExecuteError_def receive_normal)
  qed
qed

text \<open>
  Claim C10. Two streams that differ at most in a nil slice against an empty one
  (of fields or of rows, in any chunk) get the same verdict from \<^verbatim>\<open>testStreamExecute\<close>
  and from \<^verbatim>\<open>testStreamExecuteError\<close>, whatever \<^verbatim>\<open>errFunc\<close> and the call return: the
  tests write nil for the rows of the first chunk and for the fields of the second
  when their length is 0, before they compare. So a first chunk with the fields and an
  empty list of rows, and a second chunk with the rows and an empty list of fields,
  pass as the chunks with nil do.
\<close>

theorem nil_and_empty_alike:
  assumes "map normal_event s = map normal_event s'"
  shows "testStreamExecute \<lparr>stream = s, errFunc = e, call_error = c\<rparr>
           = testStreamExecute \<lparr>stream = s', errFunc = e, call_error = c\<rparr>
         \<and> testStreamExecuteError \<lparr>stream = s, errFunc = e, call_error = c\<rparr>
           = testStreamExecuteError \<lparr>stream = s', errFunc = e, call_error = c\<rparr>"
proof -
  have "testStreamExecute \<lparr>stream = s, errFunc = e, call_error = c\<rparr>
        = testStreamExecute \<lparr>stream = map normal_event s, errFunc = e, call_error = c\<rparr>"
    by (simp only: testStreamExecute_normal)
  also have "\<dots> = testStreamExecute \<lparr>stream = s', errFunc = e, call_error = c\<rparr>"
    by (simp only: assms testStreamExecute_normal)
  finally have 1: "testStreamExecute \<lparr>stream = s, errFunc = e, call_error = c\<rparr>
        = testStreamExecute \<lparr>stream = s', errFunc = e, call_error = c\<rparr>" .
  have "testStreamExecuteError \<lparr>stream = s, errFunc = e, call_error = c\<rparr>
        = testStreamExecuteError \<lparr>stream = map normal_event s, errFunc = e, call_error = c\<rparr>"
    by (simp only: testStreamExecuteError_normal)
  also have "\<dots> = testStreamExecuteError \<lparr>stream = s', errFunc = e, call_error = c\<rparr>"
    by (simp only: assms testStreamExecuteError_normal)
  finally have 2: "testStreamExecuteError \<lparr>stream = s, errFunc = e, call_error = c\<rparr>
        = testStreamExecuteError \<lparr>stream = s', errFunc = e, call_error = c\<rparr>" .
  from 1 2 show ?thesis by simp
qed

theorem nil_and_empty_alike_witness:
  "map normal_event [Chunk streamExecuteQueryResult1, Chunk streamExecuteQueryResult2, Closed]
     = map normal_event
         [Chunk (streamExecuteQueryResult1\<lparr>Rows := Some []\<rparr>),
          Chunk (streamExecuteQueryResult2\<lparr>Fields := Some []\<rparr>), Closed]
   \<and> testStreamExecute
        \<lparr>stream = [Chunk (streamExecuteQueryResult1\<lparr>Rows := Some []\<rparr>),
                   Chunk (streamExecuteQueryResult2\<lparr>Fields := Some []\<rparr>), Closed],
         errFunc = None, call_error = None\<rparr> = []
   \<and> streamExecuteQueryResult1\<lparr>Rows := Some []\<rparr> \<noteq> streamExecuteQueryResult1"
proof -
  have h: "map normal_event [Chunk streamExecuteQueryResult1, Chunk streamExecuteQueryResult2, Closed]
     = map normal_event
         [Chunk (streamExecuteQueryResult1\<lparr>Rows := Some []\<rparr>),
          Chunk (streamExecuteQueryResult2\<lparr>Fields := Some []\<rparr>), Closed]"
    by (simp add: nil_normal_def nil_if_empty_def streamExecuteQueryResult1_def
        streamExecuteQueryResult2_def)
  have t: "testStreamExecute
        \<lparr>stream = [Chunk streamExecuteQueryResult1, Chunk streamExecuteQueryResult2, Closed],
         errFunc = None, call_error = None\<rparr> = []"
    by (simp add: testStreamExecute_def Let_def streamExecuteQueryResult1_def
        streamExecuteQueryResult2_def)
  show ?thesis
    using h t nil_and_empty_alike [OF h, of None None]
    by (simp add: streamExecuteQueryResult1_def)
qed


section \<open>The tests over the fake service\<close>

text \<open>
  The tests of the source, run on what the modelled connection returns from the fake
  service, pass: with the service as created, with \<^verbatim>\<open>hasError\<close> set and with
  \<^verbatim>\<open>panics\<close> set, as \<^verbatim>\<open>TestSuite\<close> runs them, each streaming test closing the wait
  channel it closes in the source.
\<close>

lemma DialTablet_session:
  "snd (DialTablet inReply f)
     = \<lparr>sessionId = testSessionID, RPCErrorOnlyInReply = inReply\<rparr>
   \<and> fst (DialTablet inReply f) = f"
  by (simp add: DialTablet_def GetSessionId_def TestKeyspace_def TestShard_def)

lemma conn_Begin_result:
  "snd (conn_Begin conn f) =
     (if hasError f then (0, Some testTabletError)
      else if panics f then (0, Some ''caught test panic: test-triggered panic'')
      else (beginTransactionID, None))"
  by (simp add: conn_Begin_def rpc_Begin_def Begin_def split_def Let_def)

lemma conn_Begin2_result:
  "snd (conn_Begin2 conn f) =
     (if hasError f then (0, Some testTabletError)
      else if panics f then (0, Some ''caught test panic: test-triggered panic'')
      else (beginTransactionID, None))"
  by (simp add: conn_Begin2_def rpc_Begin2_def Begin_def split_def Let_def)

lemma conn_Commit_result:
  "snd (conn_Commit conn f transactionID) =
     (if hasError f then Some testTabletError
      else if panics f then Some ''caught test panic: test-triggered panic''
      else None)"
  and conn_Commit2_result:
  "snd (conn_Commit2 conn f transactionID) =
     (if hasError f then Some testTabletError
      else if panics f then Some ''caught test panic: test-triggered panic''
      else None)"
  by (simp_all add: conn_Commit_def conn_Commit2_def rpc_Commit_def rpc_Commit2_def
      Commit_def split_def Let_def)

lemma conn_Rollback_result:
  "snd (conn_Rollback conn f transactionID) =
     (if hasError f then Some testTabletError
      else if panics f then Some ''caught test panic: test-triggered panic''
      else None)"
  and conn_Rollback2_result:
  "snd (conn_Rollback2 conn f transactionID) =
     (if hasError f then Some testTabletError
      else if panics f then Some ''caught test panic: test-triggered panic''
      else None)"
  by (simp_all add: conn_Rollback_def conn_Rollback2_def rpc_Rollback_def rpc_Rollback2_def
      Rollback_def split_def Let_def)

lemma tests_pass:
  assumes "\<not> hasError f" and "\<not> panics f"
  shows "testBegin (snd (conn_Begin conn f)) = []"
    and "testBegin2 (snd (conn_Begin2 conn f)) = []"
    and "testStreamExecute
           (snd (conn_StreamExecute conn no_close f query bindVars transactionID)) = []"
    and "testExecuteBatch
           (snd (conn_ExecuteBatch conn f executeBatchQueries executeBatchTransactionID)) = []"
  using assms
  by (simp_all add: testBegin_def testBegin2_def conn_Begin_result conn_Begin2_result
      testStreamExecute_def conn_StreamExecute_result result1_rows result1_nil_rows
      streamExecuteQueryResult2_def
      testExecuteBatch_def conn_ExecuteBatch_def rpc_ExecuteBatch_def ExecuteBatch_def
      split_def Let_def)

lemma error_tests_pass:
  assumes "hasError f" and "\<not> panics f"
  shows "testBeginError (snd (conn_Begin conn f)) = []"
    and "testBegin2Error (snd (conn_Begin2 conn f)) = []"
    and "testCommitError flag (snd (conn_Commit2 conn f commitTransactionID))
           (snd (conn_Commit conn f commitTransactionID)) = []"
    and "testRollbackError flag (snd (conn_Rollback2 conn f commitTransactionID))
           (snd (conn_Rollback conn f commitTransactionID)) = []"
    and "testStreamExecuteError
           (snd (conn_StreamExecute conn close_errorWait f query bindVars transactionID)) = []"
  using assms
  by (simp_all add: testBeginError_def testBegin2Error_def testCommitError_def
      testRollbackError_def conn_Begin_result conn_Begin2_result conn_Commit_result
      conn_Commit2_result conn_Rollback_result conn_Rollback2_result
      testStreamExecuteError_def conn_StreamExecute_result close_errorWait_def
      result1_rows result1_nil_rows testTabletError_text expectedErrMatch_def)

lemma panic_tests_pass:
  assumes "panics f" and "\<not> hasError f"
  shows "testBeginPanics (snd (conn_Begin conn f)) = []"
    and "testBeginPanics (snd (conn_Begin2 conn f)) = []"
    and "testStreamExecutePanics
           (snd (conn_StreamExecute conn no_close (f\<lparr>streamExecutePanicsEarly := True\<rparr>)
                  query bindVars transactionID))
           (snd (conn_StreamExecute conn close_panicWait
                  (f\<lparr>streamExecutePanicsEarly := False\<rparr>)
                  query bindVars transactionID)) = []"
  using assms
  by (simp_all add: testBeginPanics_def conn_Begin_result conn_Begin2_result
      testStreamExecutePanics_def testStreamExecutePanics_early_def
      testStreamExecutePanics_late_def conn_StreamExecute_result close_panicWait_def
      result1_rows result1_nil_rows)

text \<open>
  A test that does not close the channel on which the service waits never finishes:
  \<^verbatim>\<open>testStreamExecute\<close>, run with \<^verbatim>\<open>hasError\<close> set, reads the first chunk and then
  waits for a second event that never comes.
\<close>

lemma testStreamExecute_waits:
  assumes "hasError f" and "\<not> panics f"
  shows "testStreamExecute
           (snd (conn_StreamExecute conn no_close f query bindVars transactionID))
         = [''receive never returns'']"
  using assms
  by (simp add: testStreamExecute_def conn_StreamExecute_result no_close_def
      result1_rows result1_nil_rows)

end
